theory Spec2Isabelle
  imports Complex_Main "HOL-Library.List_Lexorder" "HOL-Library.Char_ord"
begin

section \<open>JSON values and the Python operations the handlers use\<close>

text \<open>
  \<^verbatim>\<open>app.py\<close> keeps seven module-level lists of dicts and answers every request from
  them. A request body is what \<^verbatim>\<open>request.get_json()\<close> returns: a JSON value. A Python
  \<^verbatim>\<open>float\<close> is a finite double (written by its exact rational value), an infinity or
  NaN. Strings are \<open>char list\<close>: the model covers strings whose characters are
  single bytes (ASCII), which every string accepted by \<^verbatim>\<open>validate_email\<close> is.
\<close>

datatype pyfloat = Finite rat | PosInf | NegInf | NaN

datatype json =
    JNull
  | JBool bool
  | JInt int
  | JFloat pyfloat
  | JStr string
  | JList "json list"
  | JObj "(string \<times> json) list"

text \<open>A dict is an association list in insertion order (keys distinct).\<close>

type_synonym pydict = "(string \<times> json) list"

datatype pyerr = KeyError | TypeError | AttributeError | ValueError | OverflowError

text \<open>Truthiness: what \<^verbatim>\<open>if x\<close> and \<^verbatim>\<open>not x\<close> test.\<close>

fun float_is_zero :: "pyfloat \<Rightarrow> bool" where
  "float_is_zero (Finite q) = (q = 0)"
| "float_is_zero _ = False"

fun truthy :: "json \<Rightarrow> bool" where
  "truthy JNull = False"
| "truthy (JBool b) = b"
| "truthy (JInt n) = (n \<noteq> 0)"
| "truthy (JFloat f) = (\<not> float_is_zero f)"
| "truthy (JStr s) = (s \<noteq> [])"
| "truthy (JList xs) = (xs \<noteq> [])"
| "truthy (JObj d) = (d \<noteq> [])"

text \<open>\<^verbatim>\<open>d.get(k)\<close> (None when the key is absent) and \<^verbatim>\<open>d.get(k, default)\<close>.\<close>

definition dict_get :: "pydict \<Rightarrow> string \<Rightarrow> json" where
  "dict_get d k = (case map_of d k of None \<Rightarrow> JNull | Some v \<Rightarrow> v)"

definition dict_get_default :: "pydict \<Rightarrow> string \<Rightarrow> json \<Rightarrow> json" where
  "dict_get_default d k dflt = (case map_of d k of None \<Rightarrow> dflt | Some v \<Rightarrow> v)"

text \<open>\<^verbatim>\<open>d[k] = v\<close>: an existing key keeps its place, a new key goes last.\<close>

fun dict_set :: "string \<Rightarrow> json \<Rightarrow> pydict \<Rightarrow> pydict" where
  "dict_set k v [] = [(k, v)]"
| "dict_set k v (p # ps) = (if fst p = k then (k, v) # ps else p # dict_set k v ps)"

text \<open>The dict without the key \<open>k\<close>.\<close>

definition without_key :: "string \<Rightarrow> pydict \<Rightarrow> pydict" where
  "without_key k d = filter (\<lambda>kv. fst kv \<noteq> k) d"

text \<open>
  \<^verbatim>\<open>a == b\<close> on JSON values: numbers (and booleans) compare by value and NaN is not
  equal to itself; lists compare element by element, dicts key by key in any order. The
  comparison of two containers tests the identity of each pair of elements before their
  equality, and \<^verbatim>\<open>json.loads\<close> gives every NaN of a request body the same object: inside a
  list or a dict NaN equals NaN. (The NaN that \<^verbatim>\<open>float("nan")\<close> returns is another object;
  it is stored as the amount of a donation only, which no handler compares.)
\<close>

fun num_of :: "json \<Rightarrow> pyfloat option" where
  "num_of (JBool b) = Some (Finite (if b then 1 else 0))"
| "num_of (JInt n) = Some (Finite (of_int n))"
| "num_of (JFloat f) = Some f"
| "num_of _ = None"

fun float_eq :: "pyfloat \<Rightarrow> pyfloat \<Rightarrow> bool" where
  "float_eq NaN _ = False"
| "float_eq _ NaN = False"
| "float_eq a b = (a = b)"

definition same_nan :: "json \<Rightarrow> json \<Rightarrow> bool" where
  "same_nan a b = (a = JFloat NaN \<and> b = JFloat NaN)"

fun py_eq :: "json \<Rightarrow> json \<Rightarrow> bool" where
  "py_eq JNull JNull = True"
| "py_eq (JStr s) (JStr t) = (s = t)"
| "py_eq (JList xs) (JList ys) =
     (length xs = length ys \<and> list_all2 (\<lambda>x y. same_nan x y \<or> py_eq x y) xs ys)"
| "py_eq (JObj d) (JObj e) = (length d = length e \<and>
      list_all (\<lambda>(k, v). case map_of e k of None \<Rightarrow> False
                          | Some w \<Rightarrow> same_nan v w \<or> py_eq v w) d)"
| "py_eq a b = (case (num_of a, num_of b) of (Some x, Some y) \<Rightarrow> float_eq x y | _ \<Rightarrow> False)"

text \<open>\<^verbatim>\<open>s.lower()\<close> on ASCII letters.\<close>

definition lower_char :: "char \<Rightarrow> char" where
  "lower_char c =
     (case map_of (zip ''ABCDEFGHIJKLMNOPQRSTUVWXYZ'' ''abcdefghijklmnopqrstuvwxyz'') c of
        Some l \<Rightarrow> l
      | None \<Rightarrow> c)"

definition lower :: "string \<Rightarrow> string" where
  "lower s = map lower_char s"

text \<open>\<^verbatim>\<open>x.lower()\<close> on a JSON value: only a \<^verbatim>\<open>str\<close> has the method.\<close>

fun py_lower :: "json \<Rightarrow> pyerr + string" where
  "py_lower (JStr s) = Inr (lower s)"
| "py_lower _ = Inl AttributeError"

text \<open>\<^verbatim>\<open>a in b\<close> for two strings: \<open>a\<close> occurs in \<open>b\<close> as a contiguous run.\<close>

fun is_prefix :: "string \<Rightarrow> string \<Rightarrow> bool" where
  "is_prefix [] _ = True"
| "is_prefix (a # as) [] = False"
| "is_prefix (a # as) (b # bs) = (a = b \<and> is_prefix as bs)"

fun str_contains :: "string \<Rightarrow> string \<Rightarrow> bool" where
  "str_contains a [] = (a = [])"
| "str_contains a (b # bs) = (is_prefix a (b # bs) \<or> str_contains a bs)"

text \<open>\<^verbatim>\<open>len(x)\<close>.\<close>

fun py_len :: "json \<Rightarrow> pyerr + nat" where
  "py_len (JStr s) = Inr (length s)"
| "py_len (JList xs) = Inr (length xs)"
| "py_len (JObj d) = Inr (length d)"
| "py_len _ = Inl TypeError"

subsection \<open>\<^verbatim>\<open>validate_email\<close>\<close>

text \<open>
  \<^verbatim>\<open>re.match(r'^[a-zA-Z0-9._%+-]+@[a-zA-Z0-9.-]+\.[a-zA-Z]{2,}$', email)\<close>.
  The pattern is a sequence of items, each a character class repeated at least \<open>lo\<close>
  times and, when \<open>bounded\<close>, exactly \<open>lo\<close> times. A match exists when the string
  splits into one run per item; \<^verbatim>\<open>$\<close> accepts the end of the string and the position
  before a final newline.
\<close>

definition letters :: string where
  "letters = ''abcdefghijklmnopqrstuvwxyzABCDEFGHIJKLMNOPQRSTUVWXYZ''"

definition digits :: string where
  "digits = ''0123456789''"

type_synonym re_item = "string \<times> nat \<times> bool"

fun re_match :: "re_item list \<Rightarrow> string \<Rightarrow> bool" where
  "re_match [] s = (s = [] \<or> s = [CHR 0x0A])"
| "re_match ((cls, lo, bounded) # items) s =
     list_ex (\<lambda>n. list_all (\<lambda>c. c \<in> set cls) (take n s) \<and> re_match items (drop n s))
       (if bounded then (if lo \<le> length s then [lo] else []) else [lo ..< Suc (length s)])"

definition email_pattern :: "re_item list" where
  "email_pattern =
     [(letters @ digits @ ''._%+-'', 1, False),
      (''@'', 1, True),
      (letters @ digits @ ''.-'', 1, False),
      (''.'', 1, True),
      (letters, 2, False)]"

definition validate_email :: "string \<Rightarrow> bool" where
  "validate_email email = re_match email_pattern email"

subsection \<open>\<^verbatim>\<open>float(x)\<close> and float arithmetic\<close>

text \<open>
  The decimal-to-double conversion and the rounding of a sum are not modelled: they are
  parameters. \<open>strtod\<close> reads a decimal numeral (None: ValueError), \<open>big_int_to_float\<close>
  converts an integer beyond \<open>2^53\<close> (None: OverflowError), \<open>round_nearest\<close> rounds
  an exact sum to a double. What the handlers depend on is modelled here: the special
  literals \<^verbatim>\<open>nan\<close>, \<^verbatim>\<open>inf\<close> and \<^verbatim>\<open>infinity\<close> that \<^verbatim>\<open>float\<close> accepts in any case and
  with a sign, the types it accepts, and the comparison with zero.
\<close>

record float_ops =
  strtod :: "string \<Rightarrow> pyfloat option"
  big_int_to_float :: "int \<Rightarrow> pyfloat option"
  round_nearest :: "rat \<Rightarrow> pyfloat"

text \<open>The whitespace \<^verbatim>\<open>float\<close> strips from an ASCII string: tab, newline, vertical tab,
  form feed, carriage return and space.\<close>

definition py_space :: "char \<Rightarrow> bool" where
  "py_space c = (c \<in> set [CHR 0x09, CHR 0x0A, CHR 0x0B, CHR 0x0C, CHR 0x0D, CHR 0x20])"

definition strip :: "string \<Rightarrow> string" where
  "strip s = rev (dropWhile py_space (rev (dropWhile py_space s)))"

definition float_of_str :: "float_ops \<Rightarrow> string \<Rightarrow> pyerr + pyfloat" where
  "float_of_str fo s =
     (let t = strip s; l = lower t in
      if l \<in> set [''nan'', ''+nan'', ''-nan''] then Inr NaN
      else if l \<in> set [''inf'', ''+inf'', ''infinity'', ''+infinity''] then Inr PosInf
      else if l \<in> set [''-inf'', ''-infinity''] then Inr NegInf
      else (case strtod fo t of None \<Rightarrow> Inl ValueError | Some f \<Rightarrow> Inr f))"

definition float_of_int :: "float_ops \<Rightarrow> int \<Rightarrow> pyerr + pyfloat" where
  "float_of_int fo n =
     (if \<bar>n\<bar> \<le> 2 ^ 53 then Inr (Finite (of_int n))
      else (case big_int_to_float fo n of None \<Rightarrow> Inl OverflowError | Some f \<Rightarrow> Inr f))"

fun py_float :: "float_ops \<Rightarrow> json \<Rightarrow> pyerr + pyfloat" where
  "py_float fo (JStr s) = float_of_str fo s"
| "py_float fo (JInt n) = float_of_int fo n"
| "py_float fo (JBool b) = Inr (Finite (if b then 1 else 0))"
| "py_float fo (JFloat f) = Inr f"
| "py_float fo _ = Inl TypeError"

text \<open>\<^verbatim>\<open>amount <= 0\<close>: false for NaN.\<close>

fun float_le_zero :: "pyfloat \<Rightarrow> bool" where
  "float_le_zero (Finite q) = (q \<le> 0)"
| "float_le_zero NegInf = True"
| "float_le_zero PosInf = False"
| "float_le_zero NaN = False"

fun float_add :: "float_ops \<Rightarrow> pyfloat \<Rightarrow> pyfloat \<Rightarrow> pyfloat" where
  "float_add fo NaN _ = NaN"
| "float_add fo _ NaN = NaN"
| "float_add fo PosInf NegInf = NaN"
| "float_add fo NegInf PosInf = NaN"
| "float_add fo PosInf _ = PosInf"
| "float_add fo _ PosInf = PosInf"
| "float_add fo NegInf _ = NegInf"
| "float_add fo _ NegInf = NegInf"
| "float_add fo (Finite a) (Finite b) = round_nearest fo (a + b)"

text \<open>\<^verbatim>\<open>a + b\<close> on numbers, as \<^verbatim>\<open>sum\<close> uses it (TypeError on anything else).\<close>

fun int_of_json :: "json \<Rightarrow> int option" where
  "int_of_json (JInt n) = Some n"
| "int_of_json (JBool b) = Some (if b then 1 else 0)"
| "int_of_json _ = None"

definition to_float :: "float_ops \<Rightarrow> json \<Rightarrow> pyerr + pyfloat" where
  "to_float fo v =
     (case v of JFloat f \<Rightarrow> Inr f
      | _ \<Rightarrow> (case int_of_json v of Some n \<Rightarrow> float_of_int fo n | None \<Rightarrow> Inl TypeError))"

definition py_add :: "float_ops \<Rightarrow> json \<Rightarrow> json \<Rightarrow> pyerr + json" where
  "py_add fo a b =
     (case (int_of_json a, int_of_json b) of
        (Some m, Some n) \<Rightarrow> Inr (JInt (m + n))
      | _ \<Rightarrow>
        (case to_float fo a of
           Inl e \<Rightarrow> Inl e
         | Inr x \<Rightarrow> (case to_float fo b of Inl e \<Rightarrow> Inl e | Inr y \<Rightarrow> Inr (JFloat (float_add fo x y)))))"

fun py_sum :: "float_ops \<Rightarrow> json \<Rightarrow> json list \<Rightarrow> pyerr + json" where
  "py_sum fo acc [] = Inr acc"
| "py_sum fo acc (v # vs) =
     (case py_add fo acc v of Inl e \<Rightarrow> Inl e | Inr acc' \<Rightarrow> py_sum fo acc' vs)"

section \<open>The data stores and the responses\<close>

text \<open>
  The seven module-level lists. A handler takes the store and returns its response with
  the store it leaves behind. A response is the pair \<^verbatim>\<open>jsonify(body), status\<close>;
  \<open>InternalError msg\<close> is what an \<^verbatim>\<open>except Exception as e\<close> clause returns, status
  500 with body \<^verbatim>\<open>{"error": msg, "details": str(e)}\<close> (the text of \<^verbatim>\<open>str(e)\<close> is not
  modelled).
\<close>

record store =
  users :: "pydict list"
  alumni :: "pydict list"
  events :: "pydict list"
  jobs :: "pydict list"
  donations :: "pydict list"
  posts :: "pydict list"
  messages :: "pydict list"

definition init_store :: store where
  "init_store = \<lparr>users = [], alumni = [], events = [], jobs = [], donations = [], posts = [],
     messages = []\<rparr>"

datatype response = Response nat json | InternalError string

fun status :: "response \<Rightarrow> nat" where
  "status (Response code body) = code"
| "status (InternalError msg) = 500"

definition error_response :: "nat \<Rightarrow> string \<Rightarrow> response" where
  "error_response code msg = Response code (JObj [(''error'', JStr msg)])"

subsection \<open>Code shared by the handlers\<close>

text \<open>
  \<^verbatim>\<open>for field in required_fields: if not data.get(field): return ... f"{field} is required"\<close>:
  the first required field that is absent or falsy.
\<close>

fun missing_field :: "pydict \<Rightarrow> string list \<Rightarrow> string option" where
  "missing_field d [] = None"
| "missing_field d (f # fs) = (if truthy (dict_get d f) then missing_field d fs else Some f)"

text \<open>\<^verbatim>\<open>next((e for e in coll if e['id'] == the_id), None)\<close>; the id comes from an
  \<^verbatim>\<open><int:...>\<close> route segment, which is a natural number.\<close>

fun find_by_id :: "nat \<Rightarrow> pydict list \<Rightarrow> pyerr + pydict option" where
  "find_by_id i [] = Inr None"
| "find_by_id i (e # es) =
     (case map_of e ''id'' of
        None \<Rightarrow> Inl KeyError
      | Some v \<Rightarrow> if py_eq v (JInt (int i)) then Inr (Some e) else find_by_id i es)"

text \<open>
  \<^verbatim>\<open>for key, value in data.items(): if key not in skip: rec[key] = value\<close>. The record
  is an element of the stored list and is changed in place: \<open>replace1\<close> puts the new
  value where the record found by \<open>find_by_id\<close> stands (its first occurrence).
\<close>

fun update_fields :: "string list \<Rightarrow> pydict \<Rightarrow> pydict \<Rightarrow> pydict" where
  "update_fields skip [] r = r"
| "update_fields skip (kv # kvs) r =
     update_fields skip kvs (if fst kv \<in> set skip then r else dict_set (fst kv) (snd kv) r)"

fun replace1 :: "'a \<Rightarrow> 'a \<Rightarrow> 'a list \<Rightarrow> 'a list" where
  "replace1 x y [] = []"
| "replace1 x y (z # zs) = (if z = x then y # zs else z # replace1 x y zs)"

section \<open>Events\<close>

text \<open>\<^verbatim>\<open>event_list\<close>, POST. \<open>ts\<close> holds the two readings of \<^verbatim>\<open>datetime.now().isoformat()\<close>.\<close>

definition event_list_post :: "string \<times> string \<Rightarrow> json \<Rightarrow> store \<Rightarrow> response \<times> store" where
  "event_list_post ts data st =
     (if \<not> truthy data then (error_response 400 ''Request body is required'', st)
      else case data of
        JObj d \<Rightarrow>
          (case missing_field d [''title'', ''description'', ''date'', ''location''] of
             Some f \<Rightarrow> (error_response 400 (f @ '' is required''), st)
           | None \<Rightarrow>
               (let event_data =
                  [(''id'', JInt (int (length (events st)) + 1)),
                   (''title'', dict_get d ''title''),
                   (''description'', dict_get d ''description''),
                   (''date'', dict_get d ''date''),
                   (''time'', dict_get_default d ''time'' (JStr [])),
                   (''location'', dict_get d ''location''),
                   (''event_type'', dict_get_default d ''event_type'' (JStr ''general'')),
                   (''max_attendees'', dict_get_default d ''max_attendees'' JNull),
                   (''registration_required'', dict_get_default d ''registration_required'' (JBool False)),
                   (''organizer'', dict_get_default d ''organizer'' (JStr [])),
                   (''contact_email'', dict_get_default d ''contact_email'' (JStr [])),
                   (''image_url'', dict_get_default d ''image_url'' (JStr [])),
                   (''status'', JStr ''upcoming''),
                   (''attendees'', JList []),
                   (''created_at'', JStr (fst ts)),
                   (''updated_at'', JStr (snd ts))]
                in (Response 201 (JObj [(''message'', JStr ''Event created successfully''),
                                        (''event'', JObj event_data)]),
                    st\<lparr>events := events st @ [event_data]\<rparr>)))
      | _ \<Rightarrow> (InternalError ''Failed to create event'', st))"

text \<open>\<^verbatim>\<open>event_detail\<close>, one definition per method.\<close>

definition event_detail_get :: "nat \<Rightarrow> store \<Rightarrow> response \<times> store" where
  "event_detail_get event_id st =
     (case find_by_id event_id (events st) of
        Inl e \<Rightarrow> (InternalError ''Operation failed'', st)
      | Inr None \<Rightarrow> (error_response 404 ''Event not found'', st)
      | Inr (Some event) \<Rightarrow>
          if \<not> truthy (JObj event) then (error_response 404 ''Event not found'', st)
          else (Response 200 (JObj [(''event'', JObj event)]), st))"

definition event_detail_put :: "string \<Rightarrow> nat \<Rightarrow> json \<Rightarrow> store \<Rightarrow> response \<times> store" where
  "event_detail_put now event_id data st =
     (case find_by_id event_id (events st) of
        Inl e \<Rightarrow> (InternalError ''Operation failed'', st)
      | Inr None \<Rightarrow> (error_response 404 ''Event not found'', st)
      | Inr (Some event) \<Rightarrow>
          if \<not> truthy (JObj event) then (error_response 404 ''Event not found'', st)
          else if \<not> truthy data then (error_response 400 ''Request body is required'', st)
          else (case data of
            JObj d \<Rightarrow>
              (let event' = dict_set ''updated_at'' (JStr now) (update_fields [''id''] d event)
               in (Response 200 (JObj [(''message'', JStr ''Event updated successfully''),
                                       (''event'', JObj event')]),
                   st\<lparr>events := replace1 event event' (events st)\<rparr>))
          | _ \<Rightarrow> (InternalError ''Operation failed'', st)))"

definition event_detail_delete :: "nat \<Rightarrow> store \<Rightarrow> response \<times> store" where
  "event_detail_delete event_id st =
     (case find_by_id event_id (events st) of
        Inl e \<Rightarrow> (InternalError ''Operation failed'', st)
      | Inr None \<Rightarrow> (error_response 404 ''Event not found'', st)
      | Inr (Some event) \<Rightarrow>
          if \<not> truthy (JObj event) then (error_response 404 ''Event not found'', st)
          else (Response 200 (JObj [(''message'', JStr ''Event deleted successfully'')]),
                st\<lparr>events := remove1 event (events st)\<rparr>))"

section \<open>Jobs\<close>

definition job_list_post :: "string \<times> string \<Rightarrow> json \<Rightarrow> store \<Rightarrow> response \<times> store" where
  "job_list_post ts data st =
     (if \<not> truthy data then (error_response 400 ''Request body is required'', st)
      else case data of
        JObj d \<Rightarrow>
          (case missing_field d [''title'', ''company'', ''description'', ''location''] of
             Some f \<Rightarrow> (error_response 400 (f @ '' is required''), st)
           | None \<Rightarrow>
               (let job_data =
                  [(''id'', JInt (int (length (jobs st)) + 1)),
                   (''title'', dict_get d ''title''),
                   (''company'', dict_get d ''company''),
                   (''description'', dict_get d ''description''),
                   (''location'', dict_get d ''location''),
                   (''job_type'', dict_get_default d ''job_type'' (JStr ''full-time'')),
                   (''experience_level'', dict_get_default d ''experience_level'' (JStr ''entry'')),
                   (''salary_range'', dict_get_default d ''salary_range'' (JStr [])),
                   (''requirements'', dict_get_default d ''requirements'' (JStr [])),
                   (''contact_email'', dict_get_default d ''contact_email'' (JStr [])),
                   (''application_url'', dict_get_default d ''application_url'' (JStr [])),
                   (''posted_by'', dict_get_default d ''posted_by'' (JStr [])),
                   (''status'', JStr ''active''),
                   (''created_at'', JStr (fst ts)),
                   (''updated_at'', JStr (snd ts)),
                   (''expires_at'', dict_get_default d ''expires_at'' (JStr []))]
                in (Response 201 (JObj [(''message'', JStr ''Job posted successfully''),
                                        (''job'', JObj job_data)]),
                    st\<lparr>jobs := jobs st @ [job_data]\<rparr>)))
      | _ \<Rightarrow> (InternalError ''Failed to post job'', st))"

definition job_detail_get :: "nat \<Rightarrow> store \<Rightarrow> response \<times> store" where
  "job_detail_get job_id st =
     (case find_by_id job_id (jobs st) of
        Inl e \<Rightarrow> (InternalError ''Operation failed'', st)
      | Inr None \<Rightarrow> (error_response 404 ''Job not found'', st)
      | Inr (Some job) \<Rightarrow>
          if \<not> truthy (JObj job) then (error_response 404 ''Job not found'', st)
          else (Response 200 (JObj [(''job'', JObj job)]), st))"

definition job_detail_put :: "string \<Rightarrow> nat \<Rightarrow> json \<Rightarrow> store \<Rightarrow> response \<times> store" where
  "job_detail_put now job_id data st =
     (case find_by_id job_id (jobs st) of
        Inl e \<Rightarrow> (InternalError ''Operation failed'', st)
      | Inr None \<Rightarrow> (error_response 404 ''Job not found'', st)
      | Inr (Some job) \<Rightarrow>
          if \<not> truthy (JObj job) then (error_response 404 ''Job not found'', st)
          else if \<not> truthy data then (error_response 400 ''Request body is required'', st)
          else (case data of
            JObj d \<Rightarrow>
              (let job' = dict_set ''updated_at'' (JStr now) (update_fields [''id''] d job)
               in (Response 200 (JObj [(''message'', JStr ''Job updated successfully''),
                                       (''job'', JObj job')]),
                   st\<lparr>jobs := replace1 job job' (jobs st)\<rparr>))
          | _ \<Rightarrow> (InternalError ''Operation failed'', st)))"

definition job_detail_delete :: "nat \<Rightarrow> store \<Rightarrow> response \<times> store" where
  "job_detail_delete job_id st =
     (case find_by_id job_id (jobs st) of
        Inl e \<Rightarrow> (InternalError ''Operation failed'', st)
      | Inr None \<Rightarrow> (error_response 404 ''Job not found'', st)
      | Inr (Some job) \<Rightarrow>
          if \<not> truthy (JObj job) then (error_response 404 ''Job not found'', st)
          else (Response 200 (JObj [(''message'', JStr ''Job deleted successfully'')]),
                st\<lparr>jobs := remove1 job (jobs st)\<rparr>))"

section \<open>Posts\<close>

definition post_list_post :: "string \<times> string \<Rightarrow> json \<Rightarrow> store \<Rightarrow> response \<times> store" where
  "post_list_post ts data st =
     (if \<not> truthy data then (error_response 400 ''Request body is required'', st)
      else case data of
        JObj d \<Rightarrow>
          (case missing_field d [''author_name'', ''content''] of
             Some f \<Rightarrow> (error_response 400 (f @ '' is required''), st)
           | None \<Rightarrow>
               (let post_data =
                  [(''id'', JInt (int (length (posts st)) + 1)),
                   (''author_name'', dict_get d ''author_name''),
                   (''author_email'', dict_get_default d ''author_email'' (JStr [])),
                   (''author_batch'', dict_get_default d ''author_batch'' (JStr [])),
                   (''content'', dict_get d ''content''),
                   (''post_type'', dict_get_default d ''post_type'' (JStr ''general'')),
                   (''image_url'', dict_get_default d ''image_url'' (JStr [])),
                   (''likes'', JInt 0),
                   (''comments'', JList []),
                   (''tags'', dict_get_default d ''tags'' (JList [])),
                   (''created_at'', JStr (fst ts)),
                   (''updated_at'', JStr (snd ts))]
                in (Response 201 (JObj [(''message'', JStr ''Post created successfully''),
                                        (''post'', JObj post_data)]),
                    st\<lparr>posts := posts st @ [post_data]\<rparr>)))
      | _ \<Rightarrow> (InternalError ''Failed to create post'', st))"

text \<open>
  \<^verbatim>\<open>[p for p in filtered_posts if author in p.get('author_name', '').lower()]\<close>: the
  comprehension raises at the first post whose author_name is not a str.
\<close>

fun filter_author :: "string \<Rightarrow> pydict list \<Rightarrow> pyerr + pydict list" where
  "filter_author author [] = Inr []"
| "filter_author author (p # ps) =
     (case py_lower (dict_get_default p ''author_name'' (JStr [])) of
        Inl e \<Rightarrow> Inl e
      | Inr name \<Rightarrow>
          (case filter_author author ps of
             Inl e \<Rightarrow> Inl e
           | Inr rest \<Rightarrow> Inr (if str_contains author name then p # rest else rest)))"

text \<open>
  \<^verbatim>\<open>sorted(filtered_posts, key=lambda x: x['created_at'], reverse=True)\<close>. The keys are
  read first (KeyError when one is missing). \<^verbatim>\<open>sorted\<close> is stable and \<^verbatim>\<open>reverse=True\<close>
  keeps equal keys in their original order: the list is reversed, sorted ascending and
  reversed again. created_at is written by \<open>post_list_post\<close> only, always a str, and
  \<open>post_detail_put\<close> skips the key, so the keys of stored posts are strings; the model
  compares strings only and answers other keys with TypeError.
\<close>

fun created_at_keys :: "pydict list \<Rightarrow> pyerr + string list" where
  "created_at_keys [] = Inr []"
| "created_at_keys (p # ps) =
     (case map_of p ''created_at'' of
        None \<Rightarrow> Inl KeyError
      | Some (JStr s) \<Rightarrow> (case created_at_keys ps of Inl e \<Rightarrow> Inl e | Inr ks \<Rightarrow> Inr (s # ks))
      | Some _ \<Rightarrow> Inl TypeError)"

definition created_at_str :: "pydict \<Rightarrow> string" where
  "created_at_str p = (case map_of p ''created_at'' of Some (JStr s) \<Rightarrow> s | _ \<Rightarrow> [])"

definition sort_newest_first :: "pydict list \<Rightarrow> pyerr + pydict list" where
  "sort_newest_first ps =
     (case created_at_keys ps of
        Inl e \<Rightarrow> Inl e
      | Inr ks \<Rightarrow> Inr (rev (sort_key created_at_str (rev ps))))"

text \<open>\<^verbatim>\<open>post_list\<close>, GET. \<open>post_type\<close> and \<open>author\<close> are the query arguments
  \<^verbatim>\<open>type\<close> and \<^verbatim>\<open>author\<close> (the empty string when absent).\<close>

definition post_list_get :: "string \<Rightarrow> string \<Rightarrow> store \<Rightarrow> response \<times> store" where
  "post_list_get post_type author_arg st =
     (let author = lower author_arg;
          by_type = (if post_type \<noteq> []
                     then filter (\<lambda>p. py_eq (dict_get_default p ''post_type'' (JStr [])) (JStr post_type))
                            (posts st)
                     else posts st)
      in case (if author \<noteq> [] then filter_author author by_type else Inr by_type) of
           Inl e \<Rightarrow> (InternalError ''Failed to fetch posts'', st)
         | Inr by_author \<Rightarrow>
             (case sort_newest_first by_author of
                Inl e \<Rightarrow> (InternalError ''Failed to fetch posts'', st)
              | Inr filtered_posts \<Rightarrow>
                  (Response 200 (JObj [(''posts'', JList (map JObj filtered_posts)),
                                       (''total'', JInt (int (length filtered_posts)))]),
                   st)))"

definition post_detail_get :: "nat \<Rightarrow> store \<Rightarrow> response \<times> store" where
  "post_detail_get post_id st =
     (case find_by_id post_id (posts st) of
        Inl e \<Rightarrow> (InternalError ''Operation failed'', st)
      | Inr None \<Rightarrow> (error_response 404 ''Post not found'', st)
      | Inr (Some post) \<Rightarrow>
          if \<not> truthy (JObj post) then (error_response 404 ''Post not found'', st)
          else (Response 200 (JObj [(''post'', JObj post)]), st))"

definition post_detail_put :: "string \<Rightarrow> nat \<Rightarrow> json \<Rightarrow> store \<Rightarrow> response \<times> store" where
  "post_detail_put now post_id data st =
     (case find_by_id post_id (posts st) of
        Inl e \<Rightarrow> (InternalError ''Operation failed'', st)
      | Inr None \<Rightarrow> (error_response 404 ''Post not found'', st)
      | Inr (Some post) \<Rightarrow>
          if \<not> truthy (JObj post) then (error_response 404 ''Post not found'', st)
          else if \<not> truthy data then (error_response 400 ''Request body is required'', st)
          else (case data of
            JObj d \<Rightarrow>
              (let post' = dict_set ''updated_at'' (JStr now)
                             (update_fields [''id'', ''created_at''] d post)
               in (Response 200 (JObj [(''message'', JStr ''Post updated successfully''),
                                       (''post'', JObj post')]),
                   st\<lparr>posts := replace1 post post' (posts st)\<rparr>))
          | _ \<Rightarrow> (InternalError ''Operation failed'', st)))"

definition post_detail_delete :: "nat \<Rightarrow> store \<Rightarrow> response \<times> store" where
  "post_detail_delete post_id st =
     (case find_by_id post_id (posts st) of
        Inl e \<Rightarrow> (InternalError ''Operation failed'', st)
      | Inr None \<Rightarrow> (error_response 404 ''Post not found'', st)
      | Inr (Some post) \<Rightarrow>
          if \<not> truthy (JObj post) then (error_response 404 ''Post not found'', st)
          else (Response 200 (JObj [(''message'', JStr ''Post deleted successfully'')]),
                st\<lparr>posts := remove1 post (posts st)\<rparr>))"

section \<open>Alumni\<close>

text \<open>\<^verbatim>\<open>any(a['email'].lower() == email.lower() for a in alumni)\<close>, for a str \<open>email\<close>.\<close>

fun email_in_use :: "string \<Rightarrow> pydict list \<Rightarrow> pyerr + bool" where
  "email_in_use email [] = Inr False"
| "email_in_use email (a # as) =
     (case map_of a ''email'' of
        None \<Rightarrow> Inl KeyError
      | Some v \<Rightarrow>
          (case py_lower v of
             Inl e \<Rightarrow> Inl e
           | Inr l \<Rightarrow> if l = lower email then Inr True else email_in_use email as))"

text \<open>
  \<^verbatim>\<open>next((a for a in alumni if a['email'].lower() == email.lower() and a['id'] != alumni_id), None)\<close>.
\<close>

fun other_with_email :: "string \<Rightarrow> nat \<Rightarrow> pydict list \<Rightarrow> pyerr + pydict option" where
  "other_with_email email i [] = Inr None"
| "other_with_email email i (a # as) =
     (case map_of a ''email'' of
        None \<Rightarrow> Inl KeyError
      | Some v \<Rightarrow>
          (case py_lower v of
             Inl e \<Rightarrow> Inl e
           | Inr l \<Rightarrow>
               if l = lower email then
                 (case map_of a ''id'' of
                    None \<Rightarrow> Inl KeyError
                  | Some w \<Rightarrow> if \<not> py_eq w (JInt (int i)) then Inr (Some a)
                              else other_with_email email i as)
               else other_with_email email i as))"

definition alumni_list_post :: "string \<times> string \<Rightarrow> json \<Rightarrow> store \<Rightarrow> response \<times> store" where
  "alumni_list_post ts data st =
     (if \<not> truthy data then (error_response 400 ''Request body is required'', st)
      else case data of
        JObj d \<Rightarrow>
          (case missing_field d [''name'', ''email'', ''batch'', ''department''] of
             Some f \<Rightarrow> (error_response 400 (f @ '' is required''), st)
           | None \<Rightarrow>
               (case dict_get d ''email'' of
                  JStr email \<Rightarrow>
                    if \<not> validate_email email then (error_response 400 ''Invalid email format'', st)
                    else
                      (case email_in_use email (alumni st) of
                         Inl e \<Rightarrow> (InternalError ''Failed to create alumni profile'', st)
                       | Inr True \<Rightarrow> (error_response 409 ''Alumni with this email already exists'', st)
                       | Inr False \<Rightarrow>
                           (let alumni_data =
                              [(''id'', JInt (int (length (alumni st)) + 1)),
                               (''name'', dict_get d ''name''),
                               (''email'', JStr (lower email)),
                               (''batch'', dict_get d ''batch''),
                               (''department'', dict_get d ''department''),
                               (''phone'', dict_get_default d ''phone'' (JStr [])),
                               (''current_company'', dict_get_default d ''current_company'' (JStr [])),
                               (''current_position'', dict_get_default d ''current_position'' (JStr [])),
                               (''location'', dict_get_default d ''location'' (JStr [])),
                               (''bio'', dict_get_default d ''bio'' (JStr [])),
                               (''linkedin'', dict_get_default d ''linkedin'' (JStr [])),
                               (''profile_image'', dict_get_default d ''profile_image'' (JStr [])),
                               (''graduation_year'', dict_get_default d ''graduation_year'' (JStr [])),
                               (''created_at'', JStr (fst ts)),
                               (''updated_at'', JStr (snd ts))]
                            in (Response 201 (JObj [(''message'', JStr ''Alumni profile created successfully''),
                                                    (''alumni'', JObj alumni_data)]),
                                st\<lparr>alumni := alumni st @ [alumni_data]\<rparr>)))
                | _ \<Rightarrow> (InternalError ''Failed to create alumni profile'', st)))
      | _ \<Rightarrow> (InternalError ''Failed to create alumni profile'', st))"

definition alumni_detail_get :: "nat \<Rightarrow> store \<Rightarrow> response \<times> store" where
  "alumni_detail_get alumni_id st =
     (case find_by_id alumni_id (alumni st) of
        Inl e \<Rightarrow> (InternalError ''Operation failed'', st)
      | Inr None \<Rightarrow> (error_response 404 ''Alumni not found'', st)
      | Inr (Some alum) \<Rightarrow>
          if \<not> truthy (JObj alum) then (error_response 404 ''Alumni not found'', st)
          else (Response 200 (JObj [(''alumni'', JObj alum)]), st))"

text \<open>
  The checks of the PUT branch when the body has the key \<^verbatim>\<open>email\<close>: None lets the
  update through, Some is the response that ends the request.
\<close>

definition alumni_email_checks :: "nat \<Rightarrow> pydict \<Rightarrow> store \<Rightarrow> response option" where
  "alumni_email_checks alumni_id d st =
     (case map_of d ''email'' of
        None \<Rightarrow> None
      | Some (JStr email) \<Rightarrow>
          if \<not> validate_email email then Some (error_response 400 ''Invalid email format'')
          else
            (case other_with_email email alumni_id (alumni st) of
               Inl e \<Rightarrow> Some (InternalError ''Operation failed'')
             | Inr None \<Rightarrow> None
             | Inr (Some existing) \<Rightarrow>
                 if truthy (JObj existing)
                 then Some (error_response 409 ''Email already exists for another alumni'')
                 else None)
      | Some _ \<Rightarrow> Some (InternalError ''Operation failed''))"

definition alumni_detail_put :: "string \<Rightarrow> nat \<Rightarrow> json \<Rightarrow> store \<Rightarrow> response \<times> store" where
  "alumni_detail_put now alumni_id data st =
     (case find_by_id alumni_id (alumni st) of
        Inl e \<Rightarrow> (InternalError ''Operation failed'', st)
      | Inr None \<Rightarrow> (error_response 404 ''Alumni not found'', st)
      | Inr (Some alum) \<Rightarrow>
          if \<not> truthy (JObj alum) then (error_response 404 ''Alumni not found'', st)
          else if \<not> truthy data then (error_response 400 ''Request body is required'', st)
          else (case data of
            JObj d \<Rightarrow>
              (case alumni_email_checks alumni_id d st of
                 Some r \<Rightarrow> (r, st)
               | None \<Rightarrow>
                  (let alum' = dict_set ''updated_at'' (JStr now) (update_fields [''id''] d alum)
                   in (Response 200 (JObj [(''message'', JStr ''Alumni profile updated successfully''),
                                           (''alumni'', JObj alum')]),
                       st\<lparr>alumni := replace1 alum alum' (alumni st)\<rparr>)))
          | _ \<Rightarrow> (InternalError ''Operation failed'', st)))"

definition alumni_detail_delete :: "nat \<Rightarrow> store \<Rightarrow> response \<times> store" where
  "alumni_detail_delete alumni_id st =
     (case find_by_id alumni_id (alumni st) of
        Inl e \<Rightarrow> (InternalError ''Operation failed'', st)
      | Inr None \<Rightarrow> (error_response 404 ''Alumni not found'', st)
      | Inr (Some alum) \<Rightarrow>
          if \<not> truthy (JObj alum) then (error_response 404 ''Alumni not found'', st)
          else (Response 200 (JObj [(''message'', JStr ''Alumni profile deleted successfully'')]),
                st\<lparr>alumni := remove1 alum (alumni st)\<rparr>))"

section \<open>Donations\<close>

text \<open>
  \<^verbatim>\<open>donation_list\<close>, POST. The inner \<^verbatim>\<open>try\<close> turns a ValueError of \<^verbatim>\<open>float\<close> into a 400;
  any other exception reaches the outer \<^verbatim>\<open>except Exception\<close>.
\<close>

definition donation_list_post :: "float_ops \<Rightarrow> string \<Rightarrow> json \<Rightarrow> store \<Rightarrow> response \<times> store" where
  "donation_list_post fo now data st =
     (if \<not> truthy data then (error_response 400 ''Request body is required'', st)
      else case data of
        JObj d \<Rightarrow>
          (case missing_field d [''donor_name'', ''amount'', ''purpose''] of
             Some f \<Rightarrow> (error_response 400 (f @ '' is required''), st)
           | None \<Rightarrow>
               (case py_float fo (dict_get d ''amount'') of
                  Inl ValueError \<Rightarrow> (error_response 400 ''Invalid amount format'', st)
                | Inl _ \<Rightarrow> (InternalError ''Failed to record donation'', st)
                | Inr amount \<Rightarrow>
                    if float_le_zero amount
                    then (error_response 400 ''Amount must be greater than 0'', st)
                    else
                      (let donation_data =
                         [(''id'', JInt (int (length (donations st)) + 1)),
                          (''donor_name'', dict_get d ''donor_name''),
                          (''donor_email'', dict_get_default d ''donor_email'' (JStr [])),
                          (''amount'', JFloat amount),
                          (''currency'', dict_get_default d ''currency'' (JStr ''INR'')),
                          (''purpose'', dict_get d ''purpose''),
                          (''message'', dict_get_default d ''message'' (JStr [])),
                          (''anonymous'', dict_get_default d ''anonymous'' (JBool False)),
                          (''payment_method'', dict_get_default d ''payment_method'' (JStr [])),
                          (''transaction_id'', dict_get_default d ''transaction_id'' (JStr [])),
                          (''status'', JStr ''completed''),
                          (''created_at'', JStr now)]
                       in (Response 201 (JObj [(''message'', JStr ''Donation recorded successfully''),
                                               (''donation'', JObj donation_data)]),
                           st\<lparr>donations := donations st @ [donation_data]\<rparr>))))
      | _ \<Rightarrow> (InternalError ''Failed to record donation'', st))"

text \<open>
  \<^verbatim>\<open>donation_list\<close>, GET. \<^verbatim>\<open>donations.copy()\<close> copies the list, not the dicts in it: the
  dicts of \<^verbatim>\<open>filtered_donations\<close> are the stored ones, so the loop that hides anonymous
  donors writes into the stored records that pass the filter. The handler therefore
  returns a changed store. The store keeps these writes also when the sum raises.
\<close>

definition purpose_matches :: "string \<Rightarrow> pydict \<Rightarrow> bool" where
  "purpose_matches purpose d =
     (purpose = [] \<or> py_eq (dict_get_default d ''purpose'' (JStr [])) (JStr purpose))"

definition hide_donor :: "pydict \<Rightarrow> pydict" where
  "hide_donor d =
     (if truthy (dict_get_default d ''anonymous'' (JBool False))
      then dict_set ''donor_email'' (JStr []) (dict_set ''donor_name'' (JStr ''Anonymous'') d)
      else d)"

fun amounts :: "pydict list \<Rightarrow> pyerr + json list" where
  "amounts [] = Inr []"
| "amounts (d # ds) =
     (case map_of d ''amount'' of
        None \<Rightarrow> Inl KeyError
      | Some v \<Rightarrow> (case amounts ds of Inl e \<Rightarrow> Inl e | Inr vs \<Rightarrow> Inr (v # vs)))"

definition donation_list_get :: "float_ops \<Rightarrow> string \<Rightarrow> store \<Rightarrow> response \<times> store" where
  "donation_list_get fo purpose st =
     (let stored = map (\<lambda>d. if purpose_matches purpose d then hide_donor d else d) (donations st);
          filtered_donations = map hide_donor (filter (purpose_matches purpose) (donations st));
          st' = st\<lparr>donations := stored\<rparr>
      in case amounts filtered_donations of
           Inl e \<Rightarrow> (InternalError ''Failed to fetch donations'', st')
         | Inr vs \<Rightarrow>
             (case py_sum fo (JInt 0) vs of
                Inl e \<Rightarrow> (InternalError ''Failed to fetch donations'', st')
              | Inr total_amount \<Rightarrow>
                  (Response 200 (JObj [(''donations'', JList (map JObj filtered_donations)),
                                       (''total'', JInt (int (length filtered_donations))),
                                       (''total_amount'', total_amount)]),
                   st')))"

definition donation_detail :: "nat \<Rightarrow> store \<Rightarrow> response \<times> store" where
  "donation_detail donation_id st =
     (case find_by_id donation_id (donations st) of
        Inl e \<Rightarrow> (InternalError ''Operation failed'', st)
      | Inr None \<Rightarrow> (error_response 404 ''Donation not found'', st)
      | Inr (Some donation) \<Rightarrow>
          if \<not> truthy (JObj donation) then (error_response 404 ''Donation not found'', st)
          else (Response 200 (JObj [(''donation'', JObj donation)]), st))"

section \<open>Messages\<close>

definition message_list_post :: "string \<Rightarrow> json \<Rightarrow> store \<Rightarrow> response \<times> store" where
  "message_list_post now data st =
     (if \<not> truthy data then (error_response 400 ''Request body is required'', st)
      else case data of
        JObj d \<Rightarrow>
          (case missing_field d [''sender_email'', ''recipient_email'', ''content''] of
             Some f \<Rightarrow> (error_response 400 (f @ '' is required''), st)
           | None \<Rightarrow>
               (let message_data =
                  [(''id'', JInt (int (length (messages st)) + 1)),
                   (''sender_email'', dict_get d ''sender_email''),
                   (''recipient_email'', dict_get d ''recipient_email''),
                   (''content'', dict_get d ''content''),
                   (''message_type'', dict_get_default d ''message_type'' (JStr ''direct'')),
                   (''group_id'', dict_get_default d ''group_id'' JNull),
                   (''read'', JBool False),
                   (''created_at'', JStr now)]
                in (Response 201 (JObj [(''message'', JStr ''Message sent successfully''),
                                        (''message_data'', JObj message_data)]),
                    st\<lparr>messages := messages st @ [message_data]\<rparr>)))
      | _ \<Rightarrow> (InternalError ''Failed to send message'', st))"

section \<open>Authentication\<close>

text \<open>
  What the two handlers read from outside: \<open>now_iso\<close> is \<^verbatim>\<open>datetime.now().isoformat()\<close>,
  \<open>token_exp\<close> is \<^verbatim>\<open>datetime.utcnow() + timedelta(days=30)\<close>, and \<open>jwt_encode\<close> is
  \<^verbatim>\<open>jwt.encode(payload, app.config['SECRET_KEY'], algorithm='HS256')\<close>.
\<close>

record auth_env =
  now_iso :: string
  token_exp :: json
  jwt_encode :: "pydict \<Rightarrow> string"

text \<open>\<^verbatim>\<open>next((u for u in users if u['email'] == email), None)\<close>.\<close>

fun find_user_by_email :: "string \<Rightarrow> pydict list \<Rightarrow> pyerr + pydict option" where
  "find_user_by_email email [] = Inr None"
| "find_user_by_email email (u # us) =
     (case map_of u ''email'' of
        None \<Rightarrow> Inl KeyError
      | Some v \<Rightarrow> if py_eq v (JStr email) then Inr (Some u) else find_user_by_email email us)"

text \<open>\<^verbatim>\<open>{k: v for k, v in user.items() if k != 'password'}\<close>.\<close>

definition strip_password :: "pydict \<Rightarrow> pydict" where
  "strip_password user = filter (\<lambda>kv. fst kv \<noteq> ''password'') user"

definition make_token :: "auth_env \<Rightarrow> pydict \<Rightarrow> string" where
  "make_token env user =
     jwt_encode env [(''user_id'', dict_get user ''id''),
                     (''email'', dict_get user ''email''),
                     (''exp'', token_exp env)]"

definition register :: "auth_env \<Rightarrow> json \<Rightarrow> store \<Rightarrow> response \<times> store" where
  "register env data st =
     (if \<not> truthy data then (error_response 400 ''Request body is required'', st)
      else case data of
        JObj d \<Rightarrow>
          (case missing_field d [''email'', ''password'', ''name''] of
             Some f \<Rightarrow> (error_response 400 (f @ '' is required''), st)
           | None \<Rightarrow>
               (case dict_get d ''email'' of
                  JStr email \<Rightarrow>
                    if \<not> validate_email email then (error_response 400 ''Invalid email format'', st)
                    else
                      (case py_len (dict_get d ''password'') of
                         Inl e \<Rightarrow> (InternalError ''Registration failed'', st)
                       | Inr n \<Rightarrow>
                           if n < 6
                           then (error_response 400 ''Password must be at least 6 characters'', st)
                           else
                             (case find_user_by_email email (users st) of
                                Inl e \<Rightarrow> (InternalError ''Registration failed'', st)
                              | Inr found \<Rightarrow>
                                  if (case found of None \<Rightarrow> False | Some u \<Rightarrow> truthy (JObj u))
                                  then (error_response 409 ''User with this email already exists'', st)
                                  else
                                    (let user =
                                       [(''id'', JInt (int (length (users st)) + 1)),
                                        (''email'', JStr (lower email)),
                                        (''password'', dict_get d ''password''),
                                        (''name'', dict_get d ''name''),
                                        (''role'', dict_get_default d ''role'' (JStr ''alumni'')),
                                        (''created_at'', JStr (now_iso env))]
                                     in (Response 201
                                           (JObj [(''message'', JStr ''User registered successfully''),
                                                  (''user'', JObj (strip_password user)),
                                                  (''token'', JStr (make_token env user))]),
                                         st\<lparr>users := users st @ [user]\<rparr>))))
                | _ \<Rightarrow> (InternalError ''Registration failed'', st)))
      | _ \<Rightarrow> (InternalError ''Registration failed'', st))"

text \<open>
  \<^verbatim>\<open>login\<close>. \<^verbatim>\<open>user['password']\<close> and, for the token, \<^verbatim>\<open>user['id']\<close> raise KeyError on a
  record without the key.
\<close>

definition login :: "auth_env \<Rightarrow> json \<Rightarrow> store \<Rightarrow> response \<times> store" where
  "login env data st =
     (if \<not> truthy data then (error_response 400 ''Request body is required'', st)
      else case data of
        JObj d \<Rightarrow>
          (case py_lower (dict_get_default d ''email'' (JStr [])) of
             Inl e \<Rightarrow> (InternalError ''Login failed'', st)
           | Inr email \<Rightarrow>
               (let password = dict_get_default d ''password'' (JStr []) in
                if email = [] \<or> \<not> truthy password
                then (error_response 400 ''Email and password are required'', st)
                else
                  (case find_user_by_email email (users st) of
                     Inl e \<Rightarrow> (InternalError ''Login failed'', st)
                   | Inr None \<Rightarrow> (error_response 401 ''Invalid email or password'', st)
                   | Inr (Some user) \<Rightarrow>
                       if \<not> truthy (JObj user)
                       then (error_response 401 ''Invalid email or password'', st)
                       else
                         (case map_of user ''password'' of
                            None \<Rightarrow> (InternalError ''Login failed'', st)
                          | Some stored \<Rightarrow>
                              if \<not> py_eq stored password
                              then (error_response 401 ''Invalid email or password'', st)
                              else if map_of user ''id'' = None
                              then (InternalError ''Login failed'', st)
                              else
                                (Response 200
                                   (JObj [(''message'', JStr ''Login successful''),
                                          (''user'', JObj (strip_password user)),
                                          (''token'', JStr (make_token env user))]),
                                 st)))))
      | _ \<Rightarrow> (InternalError ''Login failed'', st))"

section \<open>The routes\<close>

text \<open>
  One constructor per route and method of the handlers above (the \<^verbatim>\<open>@app.route\<close>
  table), with what the handler reads from the request and from the clock. \<open>run\<close>
  serves a list of requests in order. The routes left out only read the store: the list
  routes of alumni, events, jobs and messages (which filter a copy of the list), the
  banner and the health check.
\<close>

datatype request =
    Register auth_env json
  | Login auth_env json
  | AlumniCreate "string \<times> string" json
  | AlumniGet nat
  | AlumniUpdate string nat json
  | AlumniDelete nat
  | EventCreate "string \<times> string" json
  | EventGet nat
  | EventUpdate string nat json
  | EventDelete nat
  | JobCreate "string \<times> string" json
  | JobGet nat
  | JobUpdate string nat json
  | JobDelete nat
  | DonationCreate float_ops string json
  | DonationList float_ops string
  | DonationGet nat
  | PostCreate "string \<times> string" json
  | PostList string string
  | PostGet nat
  | PostUpdate string nat json
  | PostDelete nat
  | MessageCreate string json

fun handle :: "request \<Rightarrow> store \<Rightarrow> response \<times> store" where
  "handle (Register env data) st = register env data st"
| "handle (Login env data) st = login env data st"
| "handle (AlumniCreate ts data) st = alumni_list_post ts data st"
| "handle (AlumniGet i) st = alumni_detail_get i st"
| "handle (AlumniUpdate now i data) st = alumni_detail_put now i data st"
| "handle (AlumniDelete i) st = alumni_detail_delete i st"
| "handle (EventCreate ts data) st = event_list_post ts data st"
| "handle (EventGet i) st = event_detail_get i st"
| "handle (EventUpdate now i data) st = event_detail_put now i data st"
| "handle (EventDelete i) st = event_detail_delete i st"
| "handle (JobCreate ts data) st = job_list_post ts data st"
| "handle (JobGet i) st = job_detail_get i st"
| "handle (JobUpdate now i data) st = job_detail_put now i data st"
| "handle (JobDelete i) st = job_detail_delete i st"
| "handle (DonationCreate fo now data) st = donation_list_post fo now data st"
| "handle (DonationList fo purpose) st = donation_list_get fo purpose st"
| "handle (DonationGet i) st = donation_detail i st"
| "handle (PostCreate ts data) st = post_list_post ts data st"
| "handle (PostList post_type author) st = post_list_get post_type author st"
| "handle (PostGet i) st = post_detail_get i st"
| "handle (PostUpdate now i data) st = post_detail_put now i data st"
| "handle (PostDelete i) st = post_detail_delete i st"
| "handle (MessageCreate now data) st = message_list_post now data st"

fun run :: "request list \<Rightarrow> store \<Rightarrow> store" where
  "run [] st = st"
| "run (r # rs) st = run rs (snd (handle r st))"

text \<open>The responses to a list of requests served in order.\<close>

fun responses :: "request list \<Rightarrow> store \<Rightarrow> response list" where
  "responses [] st = []"
| "responses (r # rs) st = (case handle r st of (resp, st') \<Rightarrow> resp # responses rs st')"

fun is_delete :: "request \<Rightarrow> bool" where
  "is_delete (AlumniDelete i) = True"
| "is_delete (EventDelete i) = True"
| "is_delete (JobDelete i) = True"
| "is_delete (PostDelete i) = True"
| "is_delete _ = False"

section \<open>Properties of a collection\<close>

text \<open>The id of each record, in list order (None for a record without the key).\<close>

definition ids_of :: "pydict list \<Rightarrow> json option list" where
  "ids_of recs = map (\<lambda>r. map_of r ''id'') recs"

text \<open>The value each record has under a key, in list order.\<close>

definition field_of :: "string \<Rightarrow> pydict list \<Rightarrow> json list" where
  "field_of k recs = map (\<lambda>r. dict_get r k) recs"

text \<open>The records a list response returns: the objects of the list under the first key
  of its body.\<close>

definition listed :: "response \<Rightarrow> pydict list" where
  "listed r =
     (case r of
        Response code (JObj ((k, JList vs) # rest)) \<Rightarrow>
          concat (map (\<lambda>v. case v of JObj d \<Rightarrow> [d] | _ \<Rightarrow> []) vs)
      | _ \<Rightarrow> [])"

text \<open>The record at position \<open>i\<close> (counting from 1) has id \<open>i\<close>.\<close>

definition sequential_ids :: "pydict list \<Rightarrow> bool" where
  "sequential_ids recs = (ids_of recs = map (\<lambda>i. Some (JInt (int i))) [1 ..< Suc (length recs)])"

definition collections :: "store \<Rightarrow> pydict list list" where
  "collections st = [users st, alumni st, events st, jobs st, donations st, posts st, messages st]"

text \<open>
  How a request may change a collection without changing the id of a stored record:
  the records keep their places and ids, or one record is appended, or one is removed.
\<close>

definition id_stable :: "pydict list \<Rightarrow> pydict list \<Rightarrow> bool" where
  "id_stable recs recs' =
     (ids_of recs' = ids_of recs
      \<or> (length recs' = Suc (length recs) \<and> take (length recs) recs' = recs)
      \<or> recs' \<in> (\<lambda>e. remove1 e recs) ` set recs)"

text \<open>Every stored post has a str under created_at.\<close>

definition has_created_at :: "pydict \<Rightarrow> bool" where
  "has_created_at p = (case map_of p ''created_at'' of Some (JStr s) \<Rightarrow> True | _ \<Rightarrow> False)"

section \<open>Example requests and stores\<close>

text \<open>Request bodies with the required fields of each collection, and clock readings.\<close>

definition example_event :: json where
  "example_event = JObj [(''title'', JStr ''Reunion''), (''description'', JStr ''Annual meet''),
     (''date'', JStr ''2025-01-01''), (''location'', JStr ''Campus'')]"

definition example_job :: json where
  "example_job = JObj [(''title'', JStr ''Engineer''), (''company'', JStr ''Acme''),
     (''description'', JStr ''Backend''), (''location'', JStr ''Surat'')]"

definition example_post :: json where
  "example_post = JObj [(''author_name'', JStr ''Asha''), (''content'', JStr ''Hello'')]"

definition example_alumni :: "string \<Rightarrow> json" where
  "example_alumni email = JObj [(''name'', JStr ''Asha''), (''email'', JStr email),
     (''batch'', JStr ''2015''), (''department'', JStr ''Civil'')]"

definition example_donation :: "json \<Rightarrow> json" where
  "example_donation amount = JObj [(''donor_name'', JStr ''A''), (''amount'', amount),
     (''purpose'', JStr ''library'')]"

definition anonymous_donation :: json where
  "anonymous_donation = JObj [(''donor_name'', JStr ''A''), (''donor_email'', JStr ''a@b.com''),
     (''amount'', JInt 100), (''purpose'', JStr ''library''), (''anonymous'', JBool True)]"

definition example_registration :: "string \<Rightarrow> string \<Rightarrow> json" where
  "example_registration email password =
     JObj [(''email'', JStr email), (''password'', JStr password), (''name'', JStr ''A'')]"

definition example_login :: "string \<Rightarrow> string \<Rightarrow> json" where
  "example_login email password = JObj [(''email'', JStr email), (''password'', JStr password)]"

definition t1 :: string where "t1 = ''2024-01-01T10:00:00.000001''"
definition t2 :: string where "t2 = ''2024-01-01T10:00:00.000002''"
definition t3 :: string where "t3 = ''2024-01-01T10:00:00.000003''"
definition t4 :: string where "t4 = ''2024-01-01T10:00:00.000004''"

text \<open>An environment for the examples: a fixed token, and a \<open>strtod\<close> that reads the
  two numerals of the specification's donation examples.\<close>

definition example_env :: auth_env where
  "example_env = \<lparr>now_iso = t1, token_exp = JInt 1706695200, jwt_encode = (\<lambda>payload. ''token'')\<rparr>"

definition example_float_ops :: float_ops where
  "example_float_ops =
     \<lparr>strtod = (\<lambda>s. if s = ''100'' then Some (Finite 100)
                     else if s = ''-5'' then Some (Finite (- 5)) else None),
      big_int_to_float = (\<lambda>n. None),
      round_nearest = Finite\<rparr>"

text \<open>Three records, ids 1 to 3, in each collection that has a delete route.\<close>

definition three_alumni :: store where
  "three_alumni =
     run [AlumniCreate (t1, t1) (example_alumni ''a@x.org''),
          AlumniCreate (t2, t2) (example_alumni ''b@x.org''),
          AlumniCreate (t3, t3) (example_alumni ''c@x.org'')] init_store"

definition three_events :: store where
  "three_events =
     run [EventCreate (t1, t1) example_event, EventCreate (t2, t2) example_event,
          EventCreate (t3, t3) example_event] init_store"

definition three_jobs :: store where
  "three_jobs =
     run [JobCreate (t1, t1) example_job, JobCreate (t2, t2) example_job,
          JobCreate (t3, t3) example_job] init_store"

definition three_posts :: store where
  "three_posts =
     run [PostCreate (t1, t1) example_post, PostCreate (t2, t2) example_post,
          PostCreate (t3, t3) example_post] init_store"

text \<open>Three events, the second deleted, the three ids looked up, one more event.\<close>

definition delete_then_create :: "request list" where
  "delete_then_create =
     [EventCreate (t1, t1) example_event, EventCreate (t2, t2) example_event,
      EventCreate (t3, t3) example_event, EventDelete 2, EventGet 1, EventGet 3, EventGet 2,
      EventCreate (t4, t4) example_event]"

text \<open>The same on jobs, without the lookups.\<close>

definition job_delete_then_create :: "request list" where
  "job_delete_then_create =
     [JobCreate (t1, t1) example_job, JobCreate (t2, t2) example_job,
      JobCreate (t3, t3) example_job, JobDelete 2, JobCreate (t4, t4) example_job]"

text \<open>Creates and an update whose body names the id, no delete.\<close>

definition create_update_requests :: "request list" where
  "create_update_requests =
     [EventCreate (t1, t1) example_event,
      EventCreate (t2, t2) example_event,
      EventUpdate t3 1 (JObj [(''title'', JStr ''Gala''), (''id'', JInt 99)]),
      EventCreate (t4, t4) example_event]"

text \<open>Two registrations, the passwords different.\<close>

definition register_twice :: "string \<Rightarrow> string \<Rightarrow> request list" where
  "register_twice first second =
     [Register example_env (example_registration first ''secret1''),
      Register example_env (example_registration second ''another-password'')]"

text \<open>An anonymous donation, looked up before and after a donation list.\<close>

definition anonymous_donation_requests :: "request list" where
  "anonymous_donation_requests =
     [DonationCreate example_float_ops t1 anonymous_donation,
      DonationGet 1,
      DonationList example_float_ops [],
      DonationGet 1]"

text \<open>Two posts and the posts list: the clock reads the same time for both posts, or an
  earlier time for the second.\<close>

definition posts_same_timestamp :: "request list" where
  "posts_same_timestamp =
     [PostCreate (t1, t1) example_post, PostCreate (t1, t1) example_post, PostList [] []]"

definition posts_clock_back :: "request list" where
  "posts_clock_back =
     [PostCreate (t2, t2) example_post, PostCreate (t1, t1) example_post, PostList [] []]"

section \<open>Lemmas\<close>

subsection \<open>Dicts and lists of records\<close>

lemma map_of_dict_set: "map_of (dict_set k v d) = (map_of d)(k \<mapsto> v)"
  by (induction d) (auto simp: fun_eq_iff)

lemma map_of_update_fields:
  "map_of (update_fields skip d r) k =
     (case map_of (rev (filter (\<lambda>kv. fst kv \<notin> set skip) d)) k of
        Some v \<Rightarrow> Some v
      | None \<Rightarrow> map_of r k)"
proof (induction d arbitrary: r)
  case Nil
  then show ?case by simp
next
  case (Cons kv d)
  then show ?case
    by (cases kv) (auto simp: map_of_dict_set map_add_def split: option.splits)
qed

lemma map_of_rev_distinct: "distinct (map fst xs) \<Longrightarrow> map_of (rev xs) k = map_of xs k"
proof (induction xs)
  case Nil
  then show ?case by simp
next
  case (Cons x xs)
  then have ih: "map_of (rev xs) k = map_of xs k" and fresh: "fst x \<notin> fst ` set xs"
    by auto
  show ?case
  proof (cases "k = fst x")
    case True
    with fresh have "map_of xs k = None" by (simp add: map_of_eq_None_iff)
    with ih True show ?thesis by (cases x) (simp add: map_add_def)
  next
    case False
    with ih show ?thesis by (cases x) (simp add: map_add_def split: option.splits)
  qed
qed

lemma map_of_update_fields_skip:
  "k \<in> set skip \<Longrightarrow> map_of (update_fields skip d r) k = map_of r k"
  by (induction d arbitrary: r) (auto simp: map_of_dict_set)

lemma find_by_id_split:
  "find_by_id i recs = Inr (Some e) \<Longrightarrow>
     \<exists>pre post. recs = pre @ e # post \<and> e \<notin> set pre"
proof (induction recs)
  case Nil
  then show ?case by simp
next
  case (Cons r recs)
  show ?case
  proof (cases "r = e")
    case True
    then have "r # recs = [] @ e # recs \<and> e \<notin> set []" by simp
    then show ?thesis by blast
  next
    case False
    with Cons.prems have "find_by_id i recs = Inr (Some e)"
      by (auto split: option.splits if_splits)
    from Cons.IH[OF this] obtain pre post where "recs = pre @ e # post" "e \<notin> set pre" by blast
    with False have "r # recs = (r # pre) @ e # post \<and> e \<notin> set (r # pre)" by simp
    then show ?thesis by blast
  qed
qed

lemma replace1_split: "e \<notin> set pre \<Longrightarrow> replace1 e e' (pre @ e # post) = pre @ e' # post"
  by (induction pre) auto

lemma ids_of_replace1:
  "map_of e' ''id'' = map_of e ''id'' \<Longrightarrow> ids_of (replace1 e e' recs) = ids_of recs"
  by (induction recs) (auto simp: ids_of_def)

subsection \<open>What each handler does to the store\<close>

lemma event_list_post_cases:
  "event_list_post ts data st = (r, st') \<Longrightarrow>
     (st' = st \<and> status r \<noteq> 201) \<or>
     (\<exists>new. st' = st\<lparr>events := events st @ [new]\<rparr> \<and> status r = 201
        \<and> map_of new ''id'' = Some (JInt (int (length (events st)) + 1)))"
  unfolding event_list_post_def
  by (auto simp: Let_def error_response_def
      split: if_splits json.splits option.splits sum.splits)

lemma job_list_post_cases:
  "job_list_post ts data st = (r, st') \<Longrightarrow>
     (st' = st \<and> status r \<noteq> 201) \<or>
     (\<exists>new. st' = st\<lparr>jobs := jobs st @ [new]\<rparr> \<and> status r = 201
        \<and> map_of new ''id'' = Some (JInt (int (length (jobs st)) + 1)))"
  unfolding job_list_post_def
  by (auto simp: Let_def error_response_def
      split: if_splits json.splits option.splits sum.splits)

lemma post_list_post_cases:
  "post_list_post ts data st = (r, st') \<Longrightarrow>
     (st' = st \<and> status r \<noteq> 201) \<or>
     (\<exists>new. st' = st\<lparr>posts := posts st @ [new]\<rparr> \<and> status r = 201
        \<and> map_of new ''id'' = Some (JInt (int (length (posts st)) + 1)))"
  unfolding post_list_post_def
  by (auto simp: Let_def error_response_def
      split: if_splits json.splits option.splits sum.splits)

lemma alumni_list_post_cases:
  "alumni_list_post ts data st = (r, st') \<Longrightarrow>
     (st' = st \<and> status r \<noteq> 201) \<or>
     (\<exists>new. st' = st\<lparr>alumni := alumni st @ [new]\<rparr> \<and> status r = 201
        \<and> map_of new ''id'' = Some (JInt (int (length (alumni st)) + 1)))"
  unfolding alumni_list_post_def
  by (auto simp: Let_def error_response_def
      split: if_splits json.splits option.splits sum.splits bool.splits)

lemma donation_list_post_cases:
  "donation_list_post fo now data st = (r, st') \<Longrightarrow>
     (st' = st \<and> status r \<noteq> 201) \<or>
     (\<exists>new. st' = st\<lparr>donations := donations st @ [new]\<rparr> \<and> status r = 201
        \<and> map_of new ''id'' = Some (JInt (int (length (donations st)) + 1)))"
  unfolding donation_list_post_def
  by (auto simp: Let_def error_response_def
      split: if_splits json.splits option.splits sum.splits pyerr.splits)

lemma message_list_post_cases:
  "message_list_post now data st = (r, st') \<Longrightarrow>
     (st' = st \<and> status r \<noteq> 201) \<or>
     (\<exists>new. st' = st\<lparr>messages := messages st @ [new]\<rparr> \<and> status r = 201
        \<and> map_of new ''id'' = Some (JInt (int (length (messages st)) + 1)))"
  unfolding message_list_post_def
  by (auto simp: Let_def error_response_def
      split: if_splits json.splits option.splits sum.splits)

lemma register_cases:
  "register env data st = (r, st') \<Longrightarrow>
     (st' = st \<and> status r \<noteq> 201) \<or>
     (\<exists>new. st' = st\<lparr>users := users st @ [new]\<rparr> \<and> status r = 201
        \<and> map_of new ''id'' = Some (JInt (int (length (users st)) + 1)))"
  unfolding register_def
  by (auto simp: Let_def error_response_def
      split: if_splits json.splits option.splits sum.splits)

lemma alumni_email_checks_status:
  "alumni_email_checks i d st = Some r \<Longrightarrow> status r \<noteq> 200"
  unfolding alumni_email_checks_def
  by (auto simp: error_response_def split: if_splits json.splits option.splits sum.splits)

lemma event_detail_put_cases:
  "event_detail_put now i data st = (r, st') \<Longrightarrow>
     (st' = st \<and> status r \<noteq> 200) \<or>
     (\<exists>e d. find_by_id i (events st) = Inr (Some e) \<and> data = JObj d \<and> d \<noteq> []
        \<and> st' = st\<lparr>events := replace1 e (dict_set ''updated_at'' (JStr now) (update_fields [''id''] d e)) (events st)\<rparr>
        \<and> r = Response 200 (JObj [(''message'', JStr ''Event updated successfully''),
                 (''event'', JObj (dict_set ''updated_at'' (JStr now) (update_fields [''id''] d e)))]))"
  unfolding event_detail_put_def
  by (auto simp: Let_def error_response_def
      split: if_splits json.splits option.splits sum.splits)

lemma event_detail_delete_cases:
  "event_detail_delete i st = (r, st') \<Longrightarrow>
     (st' = st \<and> status r \<noteq> 200) \<or>
     (\<exists>e. find_by_id i (events st) = Inr (Some e)
        \<and> st' = st\<lparr>events := remove1 e (events st)\<rparr> \<and> status r = 200)"
  unfolding event_detail_delete_def
  by (auto simp: error_response_def split: if_splits option.splits sum.splits)

lemma event_detail_get_store: "snd (event_detail_get i st) = st"
  unfolding event_detail_get_def
  by (auto split: option.splits sum.splits)

lemma job_detail_put_cases:
  "job_detail_put now i data st = (r, st') \<Longrightarrow>
     (st' = st \<and> status r \<noteq> 200) \<or>
     (\<exists>e d. find_by_id i (jobs st) = Inr (Some e) \<and> data = JObj d \<and> d \<noteq> []
        \<and> st' = st\<lparr>jobs := replace1 e (dict_set ''updated_at'' (JStr now) (update_fields [''id''] d e)) (jobs st)\<rparr>
        \<and> r = Response 200 (JObj [(''message'', JStr ''Job updated successfully''),
                 (''job'', JObj (dict_set ''updated_at'' (JStr now) (update_fields [''id''] d e)))]))"
  unfolding job_detail_put_def
  by (auto simp: Let_def error_response_def
      split: if_splits json.splits option.splits sum.splits)

lemma job_detail_delete_cases:
  "job_detail_delete i st = (r, st') \<Longrightarrow>
     (st' = st \<and> status r \<noteq> 200) \<or>
     (\<exists>e. find_by_id i (jobs st) = Inr (Some e)
        \<and> st' = st\<lparr>jobs := remove1 e (jobs st)\<rparr> \<and> status r = 200)"
  unfolding job_detail_delete_def
  by (auto simp: error_response_def split: if_splits option.splits sum.splits)

lemma job_detail_get_store: "snd (job_detail_get i st) = st"
  unfolding job_detail_get_def
  by (auto split: option.splits sum.splits)

lemma post_detail_put_cases:
  "post_detail_put now i data st = (r, st') \<Longrightarrow>
     (st' = st \<and> status r \<noteq> 200) \<or>
     (\<exists>e d. find_by_id i (posts st) = Inr (Some e) \<and> data = JObj d \<and> d \<noteq> []
        \<and> st' = st\<lparr>posts := replace1 e (dict_set ''updated_at'' (JStr now) (update_fields [''id'', ''created_at''] d e)) (posts st)\<rparr>
        \<and> r = Response 200 (JObj [(''message'', JStr ''Post updated successfully''),
                 (''post'', JObj (dict_set ''updated_at'' (JStr now) (update_fields [''id'', ''created_at''] d e)))]))"
  unfolding post_detail_put_def
  by (auto simp: Let_def error_response_def
      split: if_splits json.splits option.splits sum.splits)

lemma post_detail_delete_cases:
  "post_detail_delete i st = (r, st') \<Longrightarrow>
     (st' = st \<and> status r \<noteq> 200) \<or>
     (\<exists>e. find_by_id i (posts st) = Inr (Some e)
        \<and> st' = st\<lparr>posts := remove1 e (posts st)\<rparr> \<and> status r = 200)"
  unfolding post_detail_delete_def
  by (auto simp: error_response_def split: if_splits option.splits sum.splits)

lemma post_detail_get_store: "snd (post_detail_get i st) = st"
  unfolding post_detail_get_def
  by (auto split: option.splits sum.splits)

lemma alumni_detail_put_cases:
  "alumni_detail_put now i data st = (r, st') \<Longrightarrow>
     (st' = st \<and> status r \<noteq> 200) \<or>
     (\<exists>e d. find_by_id i (alumni st) = Inr (Some e) \<and> data = JObj d \<and> d \<noteq> []
        \<and> alumni_email_checks i d st = None
        \<and> st' = st\<lparr>alumni := replace1 e (dict_set ''updated_at'' (JStr now) (update_fields [''id''] d e)) (alumni st)\<rparr>
        \<and> r = Response 200 (JObj [(''message'', JStr ''Alumni profile updated successfully''),
                 (''alumni'', JObj (dict_set ''updated_at'' (JStr now) (update_fields [''id''] d e)))]))"
  unfolding alumni_detail_put_def
  by (auto simp: Let_def error_response_def dest: alumni_email_checks_status
      split: if_splits json.splits option.splits sum.splits)

lemma alumni_detail_delete_cases:
  "alumni_detail_delete i st = (r, st') \<Longrightarrow>
     (st' = st \<and> status r \<noteq> 200) \<or>
     (\<exists>e. find_by_id i (alumni st) = Inr (Some e)
        \<and> st' = st\<lparr>alumni := remove1 e (alumni st)\<rparr> \<and> status r = 200)"
  unfolding alumni_detail_delete_def
  by (auto simp: error_response_def split: if_splits option.splits sum.splits)

lemma alumni_detail_get_store: "snd (alumni_detail_get i st) = st"
  unfolding alumni_detail_get_def
  by (auto split: option.splits sum.splits)

lemma donation_detail_store: "snd (donation_detail i st) = st"
  unfolding donation_detail_def
  by (auto split: option.splits sum.splits)

lemma login_store: "snd (login env data st) = st"
  unfolding login_def
  by (auto simp: Let_def split: json.splits option.splits sum.splits)

lemma post_list_get_store: "snd (post_list_get t a st) = st"
  unfolding post_list_get_def
  by (auto simp: Let_def split: sum.splits)

lemma donation_list_get_store:
  "snd (donation_list_get fo purpose st) =
     st\<lparr>donations := map (\<lambda>d. if purpose_matches purpose d then hide_donor d else d) (donations st)\<rparr>"
  unfolding donation_list_get_def
  by (auto simp: Let_def split: sum.splits)

subsection \<open>Ids\<close>

lemma find_by_id_mem: "find_by_id i recs = Inr (Some e) \<Longrightarrow> e \<in> set recs"
  by (induction recs) (auto split: option.splits if_splits)

lemma updated_keeps_id:
  "''id'' \<in> set skip \<Longrightarrow>
     map_of (dict_set ''updated_at'' v (update_fields skip d e)) ''id'' = map_of e ''id''"
  by (simp add: map_of_dict_set map_of_update_fields_skip)

lemma hide_donor_id: "map_of (hide_donor d) ''id'' = map_of d ''id''"
  by (simp add: hide_donor_def map_of_dict_set)

lemma ids_of_hide:
  "ids_of (map (\<lambda>d. if P d then hide_donor d else d) ds) = ids_of ds"
  by (induction ds) (auto simp: ids_of_def hide_donor_id)

lemma length_replace1: "length (replace1 x y zs) = length zs"
  by (induction zs) auto

lemma id_stable_refl: "id_stable recs recs"
  by (simp add: id_stable_def)

lemma id_stable_same_ids: "ids_of recs' = ids_of recs \<Longrightarrow> id_stable recs recs'"
  by (simp add: id_stable_def)

lemma id_stable_append: "id_stable recs (recs @ [new])"
  by (simp add: id_stable_def)

lemma id_stable_remove1: "e \<in> set recs \<Longrightarrow> id_stable recs (remove1 e recs)"
  by (auto simp: id_stable_def)

lemma sequential_ids_append:
  "sequential_ids recs \<Longrightarrow> map_of new ''id'' = Some (JInt (int (length recs) + 1)) \<Longrightarrow>
     sequential_ids (recs @ [new])"
  by (simp add: sequential_ids_def ids_of_def add.commute)

lemma sequential_ids_distinct: "sequential_ids recs \<Longrightarrow> distinct (ids_of recs)"
  by (simp add: sequential_ids_def distinct_map inj_on_def)

lemma event_list_post_stable:
  "list_all2 id_stable (collections st) (collections (snd (event_list_post ts data st)))"
  using event_list_post_cases [OF surjective_pairing, of ts data st]
  by (auto simp: collections_def id_stable_refl id_stable_append)

lemma event_list_post_sequential:
  "list_all sequential_ids (collections st) \<Longrightarrow>
     list_all sequential_ids (collections (snd (event_list_post ts data st)))"
  using event_list_post_cases [OF surjective_pairing, of ts data st]
  by (auto simp: collections_def sequential_ids_append)

lemma job_list_post_stable:
  "list_all2 id_stable (collections st) (collections (snd (job_list_post ts data st)))"
  using job_list_post_cases [OF surjective_pairing, of ts data st]
  by (auto simp: collections_def id_stable_refl id_stable_append)

lemma job_list_post_sequential:
  "list_all sequential_ids (collections st) \<Longrightarrow>
     list_all sequential_ids (collections (snd (job_list_post ts data st)))"
  using job_list_post_cases [OF surjective_pairing, of ts data st]
  by (auto simp: collections_def sequential_ids_append)

lemma post_list_post_stable:
  "list_all2 id_stable (collections st) (collections (snd (post_list_post ts data st)))"
  using post_list_post_cases [OF surjective_pairing, of ts data st]
  by (auto simp: collections_def id_stable_refl id_stable_append)

lemma post_list_post_sequential:
  "list_all sequential_ids (collections st) \<Longrightarrow>
     list_all sequential_ids (collections (snd (post_list_post ts data st)))"
  using post_list_post_cases [OF surjective_pairing, of ts data st]
  by (auto simp: collections_def sequential_ids_append)

lemma alumni_list_post_stable:
  "list_all2 id_stable (collections st) (collections (snd (alumni_list_post ts data st)))"
  using alumni_list_post_cases [OF surjective_pairing, of ts data st]
  by (auto simp: collections_def id_stable_refl id_stable_append)

lemma alumni_list_post_sequential:
  "list_all sequential_ids (collections st) \<Longrightarrow>
     list_all sequential_ids (collections (snd (alumni_list_post ts data st)))"
  using alumni_list_post_cases [OF surjective_pairing, of ts data st]
  by (auto simp: collections_def sequential_ids_append)

lemma donation_list_post_stable:
  "list_all2 id_stable (collections st) (collections (snd (donation_list_post fo now data st)))"
  using donation_list_post_cases [OF surjective_pairing, of fo now data st]
  by (auto simp: collections_def id_stable_refl id_stable_append)

lemma donation_list_post_sequential:
  "list_all sequential_ids (collections st) \<Longrightarrow>
     list_all sequential_ids (collections (snd (donation_list_post fo now data st)))"
  using donation_list_post_cases [OF surjective_pairing, of fo now data st]
  by (auto simp: collections_def sequential_ids_append)

lemma message_list_post_stable:
  "list_all2 id_stable (collections st) (collections (snd (message_list_post now data st)))"
  using message_list_post_cases [OF surjective_pairing, of now data st]
  by (auto simp: collections_def id_stable_refl id_stable_append)

lemma message_list_post_sequential:
  "list_all sequential_ids (collections st) \<Longrightarrow>
     list_all sequential_ids (collections (snd (message_list_post now data st)))"
  using message_list_post_cases [OF surjective_pairing, of now data st]
  by (auto simp: collections_def sequential_ids_append)

lemma register_stable:
  "list_all2 id_stable (collections st) (collections (snd (register env data st)))"
  using register_cases [OF surjective_pairing, of env data st]
  by (auto simp: collections_def id_stable_refl id_stable_append)

lemma register_sequential:
  "list_all sequential_ids (collections st) \<Longrightarrow>
     list_all sequential_ids (collections (snd (register env data st)))"
  using register_cases [OF surjective_pairing, of env data st]
  by (auto simp: collections_def sequential_ids_append)

lemma event_detail_put_stable:
  "list_all2 id_stable (collections st) (collections (snd (event_detail_put now i data st)))"
  using event_detail_put_cases [OF surjective_pairing, of now i data st]
  by (auto simp: collections_def id_stable_refl updated_keeps_id ids_of_replace1 id_stable_same_ids)

lemma event_detail_put_sequential:
  "list_all sequential_ids (collections st) \<Longrightarrow>
     list_all sequential_ids (collections (snd (event_detail_put now i data st)))"
  using event_detail_put_cases [OF surjective_pairing, of now i data st]
  by (elim disjE exE conjE)
     (simp_all add: collections_def sequential_ids_def updated_keeps_id ids_of_replace1
        length_replace1)

lemma event_detail_delete_stable:
  "list_all2 id_stable (collections st) (collections (snd (event_detail_delete i st)))"
  using event_detail_delete_cases [OF surjective_pairing, of i st]
  by (auto simp: collections_def id_stable_refl id_stable_remove1 find_by_id_mem)

lemma job_detail_put_stable:
  "list_all2 id_stable (collections st) (collections (snd (job_detail_put now i data st)))"
  using job_detail_put_cases [OF surjective_pairing, of now i data st]
  by (auto simp: collections_def id_stable_refl updated_keeps_id ids_of_replace1 id_stable_same_ids)

lemma job_detail_put_sequential:
  "list_all sequential_ids (collections st) \<Longrightarrow>
     list_all sequential_ids (collections (snd (job_detail_put now i data st)))"
  using job_detail_put_cases [OF surjective_pairing, of now i data st]
  by (elim disjE exE conjE)
     (simp_all add: collections_def sequential_ids_def updated_keeps_id ids_of_replace1
        length_replace1)

lemma job_detail_delete_stable:
  "list_all2 id_stable (collections st) (collections (snd (job_detail_delete i st)))"
  using job_detail_delete_cases [OF surjective_pairing, of i st]
  by (auto simp: collections_def id_stable_refl id_stable_remove1 find_by_id_mem)

lemma post_detail_put_stable:
  "list_all2 id_stable (collections st) (collections (snd (post_detail_put now i data st)))"
  using post_detail_put_cases [OF surjective_pairing, of now i data st]
  by (auto simp: collections_def id_stable_refl updated_keeps_id ids_of_replace1 id_stable_same_ids)

lemma post_detail_put_sequential:
  "list_all sequential_ids (collections st) \<Longrightarrow>
     list_all sequential_ids (collections (snd (post_detail_put now i data st)))"
  using post_detail_put_cases [OF surjective_pairing, of now i data st]
  by (elim disjE exE conjE)
     (simp_all add: collections_def sequential_ids_def updated_keeps_id ids_of_replace1
        length_replace1)

lemma post_detail_delete_stable:
  "list_all2 id_stable (collections st) (collections (snd (post_detail_delete i st)))"
  using post_detail_delete_cases [OF surjective_pairing, of i st]
  by (auto simp: collections_def id_stable_refl id_stable_remove1 find_by_id_mem)

lemma alumni_detail_put_stable:
  "list_all2 id_stable (collections st) (collections (snd (alumni_detail_put now i data st)))"
  using alumni_detail_put_cases [OF surjective_pairing, of now i data st]
  by (auto simp: collections_def id_stable_refl updated_keeps_id ids_of_replace1 id_stable_same_ids)

lemma alumni_detail_put_sequential:
  "list_all sequential_ids (collections st) \<Longrightarrow>
     list_all sequential_ids (collections (snd (alumni_detail_put now i data st)))"
  using alumni_detail_put_cases [OF surjective_pairing, of now i data st]
  by (elim disjE exE conjE)
     (simp_all add: collections_def sequential_ids_def updated_keeps_id ids_of_replace1
        length_replace1)

lemma alumni_detail_delete_stable:
  "list_all2 id_stable (collections st) (collections (snd (alumni_detail_delete i st)))"
  using alumni_detail_delete_cases [OF surjective_pairing, of i st]
  by (auto simp: collections_def id_stable_refl id_stable_remove1 find_by_id_mem)

lemma donation_list_get_stable:
  "list_all2 id_stable (collections st) (collections (snd (donation_list_get fo purpose st)))"
  by (simp add: donation_list_get_store collections_def id_stable_refl ids_of_hide
      id_stable_same_ids)

lemma donation_list_get_sequential:
  "list_all sequential_ids (collections st) \<Longrightarrow>
     list_all sequential_ids (collections (snd (donation_list_get fo purpose st)))"
  by (simp add: donation_list_get_store collections_def sequential_ids_def ids_of_hide)

lemma unchanged_stable: "list_all2 id_stable (collections st) (collections st)"
  by (simp add: collections_def id_stable_refl)

lemma handle_stable: "list_all2 id_stable (collections st) (collections (snd (handle req st)))"
  by (cases req)
     (simp_all add: register_stable login_store alumni_list_post_stable alumni_detail_get_store
        alumni_detail_put_stable alumni_detail_delete_stable event_list_post_stable
        event_detail_get_store event_detail_put_stable event_detail_delete_stable
        job_list_post_stable job_detail_get_store job_detail_put_stable job_detail_delete_stable
        donation_list_post_stable donation_list_get_stable donation_detail_store
        post_list_post_stable post_list_get_store post_detail_get_store post_detail_put_stable
        post_detail_delete_stable message_list_post_stable unchanged_stable)

lemma handle_sequential:
  "\<not> is_delete req \<Longrightarrow> list_all sequential_ids (collections st) \<Longrightarrow>
     list_all sequential_ids (collections (snd (handle req st)))"
  by (cases req)
     (simp_all add: register_sequential login_store alumni_list_post_sequential
        alumni_detail_get_store alumni_detail_put_sequential event_list_post_sequential
        event_detail_get_store event_detail_put_sequential job_list_post_sequential
        job_detail_get_store job_detail_put_sequential donation_list_post_sequential
        donation_list_get_sequential donation_detail_store post_list_post_sequential
        post_list_get_store post_detail_get_store post_detail_put_sequential
        message_list_post_sequential)

lemma run_sequential:
  "list_all (\<lambda>r. \<not> is_delete r) reqs \<Longrightarrow> list_all sequential_ids (collections st) \<Longrightarrow>
     list_all sequential_ids (collections (run reqs st))"
  by (induction reqs arbitrary: st) (auto simp: handle_sequential)

lemma init_sequential: "list_all sequential_ids (collections init_store)"
  by (simp add: collections_def init_store_def sequential_ids_def ids_of_def)

subsection \<open>Delete, then create\<close>

lemma find_by_id_three:
  assumes "ids_of [r1, r2, r3] = [Some (JInt 1), Some (JInt 2), Some (JInt 3)]"
  shows "find_by_id 2 [r1, r2, r3] = Inr (Some r2)"
    and "find_by_id (Suc 0) [r1, r3] = Inr (Some r1)"
    and "find_by_id 3 [r1, r3] = Inr (Some r3)"
    and "find_by_id 2 [r1, r3] = Inr None"
    and "remove1 r2 [r1, r2, r3] = [r1, r3]"
    and "r1 \<noteq> []" and "r2 \<noteq> []" and "r3 \<noteq> []"
  using assms by (auto simp: ids_of_def)

lemma event_delete_then_create:
  assumes "events st = [r1, r2, r3]"
    and "ids_of (events st) = [Some (JInt 1), Some (JInt 2), Some (JInt 3)]"
  shows "events (snd (event_detail_delete 2 st)) = [r1, r3]
     \<and> fst (event_detail_get 1 (snd (event_detail_delete 2 st))) = Response 200 (JObj [(''event'', JObj r1)])
     \<and> fst (event_detail_get 3 (snd (event_detail_delete 2 st))) = Response 200 (JObj [(''event'', JObj r3)])
     \<and> fst (event_detail_get 2 (snd (event_detail_delete 2 st))) = error_response 404 ''Event not found''
     \<and> (status (fst (event_list_post ts data (snd (event_detail_delete 2 st)))) = 201 \<longrightarrow>
          (\<exists>new. events (snd (event_list_post ts data (snd (event_detail_delete 2 st)))) = [r1, r3, new]
             \<and> map_of new ''id'' = Some (JInt 3)))"
proof -
  note f = find_by_id_three [OF assms(2) [unfolded assms(1)]]
  have d: "events (snd (event_detail_delete 2 st)) = [r1, r3]"
    by (simp add: event_detail_delete_def assms(1) f del: find_by_id.simps)
  have g1: "fst (event_detail_get 1 (snd (event_detail_delete 2 st))) = Response 200 (JObj [(''event'', JObj r1)])"
    by (simp add: event_detail_get_def d f del: find_by_id.simps)
  have g3: "fst (event_detail_get 3 (snd (event_detail_delete 2 st))) = Response 200 (JObj [(''event'', JObj r3)])"
    by (simp add: event_detail_get_def d f del: find_by_id.simps)
  have g2: "fst (event_detail_get 2 (snd (event_detail_delete 2 st))) = error_response 404 ''Event not found''"
    by (simp add: event_detail_get_def d f del: find_by_id.simps)
  have c: "\<exists>new. events (snd (event_list_post ts data (snd (event_detail_delete 2 st)))) = [r1, r3, new]
           \<and> map_of new ''id'' = Some (JInt 3)"
    if "status (fst (event_list_post ts data (snd (event_detail_delete 2 st)))) = 201"
    using event_list_post_cases [OF surjective_pairing, of ts data "snd (event_detail_delete 2 st)"] that d
    by auto
  from d g1 g2 g3 c show ?thesis by blast
qed

lemma job_delete_then_create:
  assumes "jobs st = [r1, r2, r3]"
    and "ids_of (jobs st) = [Some (JInt 1), Some (JInt 2), Some (JInt 3)]"
  shows "jobs (snd (job_detail_delete 2 st)) = [r1, r3]
     \<and> fst (job_detail_get 1 (snd (job_detail_delete 2 st))) = Response 200 (JObj [(''job'', JObj r1)])
     \<and> fst (job_detail_get 3 (snd (job_detail_delete 2 st))) = Response 200 (JObj [(''job'', JObj r3)])
     \<and> fst (job_detail_get 2 (snd (job_detail_delete 2 st))) = error_response 404 ''Job not found''
     \<and> (status (fst (job_list_post ts data (snd (job_detail_delete 2 st)))) = 201 \<longrightarrow>
          (\<exists>new. jobs (snd (job_list_post ts data (snd (job_detail_delete 2 st)))) = [r1, r3, new]
             \<and> map_of new ''id'' = Some (JInt 3)))"
proof -
  note f = find_by_id_three [OF assms(2) [unfolded assms(1)]]
  have d: "jobs (snd (job_detail_delete 2 st)) = [r1, r3]"
    by (simp add: job_detail_delete_def assms(1) f del: find_by_id.simps)
  have g1: "fst (job_detail_get 1 (snd (job_detail_delete 2 st))) = Response 200 (JObj [(''job'', JObj r1)])"
    by (simp add: job_detail_get_def d f del: find_by_id.simps)
  have g3: "fst (job_detail_get 3 (snd (job_detail_delete 2 st))) = Response 200 (JObj [(''job'', JObj r3)])"
    by (simp add: job_detail_get_def d f del: find_by_id.simps)
  have g2: "fst (job_detail_get 2 (snd (job_detail_delete 2 st))) = error_response 404 ''Job not found''"
    by (simp add: job_detail_get_def d f del: find_by_id.simps)
  have c: "\<exists>new. jobs (snd (job_list_post ts data (snd (job_detail_delete 2 st)))) = [r1, r3, new]
           \<and> map_of new ''id'' = Some (JInt 3)"
    if "status (fst (job_list_post ts data (snd (job_detail_delete 2 st)))) = 201"
    using job_list_post_cases [OF surjective_pairing, of ts data "snd (job_detail_delete 2 st)"] that d
    by auto
  from d g1 g2 g3 c show ?thesis by blast
qed

lemma post_delete_then_create:
  assumes "posts st = [r1, r2, r3]"
    and "ids_of (posts st) = [Some (JInt 1), Some (JInt 2), Some (JInt 3)]"
  shows "posts (snd (post_detail_delete 2 st)) = [r1, r3]
     \<and> fst (post_detail_get 1 (snd (post_detail_delete 2 st))) = Response 200 (JObj [(''post'', JObj r1)])
     \<and> fst (post_detail_get 3 (snd (post_detail_delete 2 st))) = Response 200 (JObj [(''post'', JObj r3)])
     \<and> fst (post_detail_get 2 (snd (post_detail_delete 2 st))) = error_response 404 ''Post not found''
     \<and> (status (fst (post_list_post ts data (snd (post_detail_delete 2 st)))) = 201 \<longrightarrow>
          (\<exists>new. posts (snd (post_list_post ts data (snd (post_detail_delete 2 st)))) = [r1, r3, new]
             \<and> map_of new ''id'' = Some (JInt 3)))"
proof -
  note f = find_by_id_three [OF assms(2) [unfolded assms(1)]]
  have d: "posts (snd (post_detail_delete 2 st)) = [r1, r3]"
    by (simp add: post_detail_delete_def assms(1) f del: find_by_id.simps)
  have g1: "fst (post_detail_get 1 (snd (post_detail_delete 2 st))) = Response 200 (JObj [(''post'', JObj r1)])"
    by (simp add: post_detail_get_def d f del: find_by_id.simps)
  have g3: "fst (post_detail_get 3 (snd (post_detail_delete 2 st))) = Response 200 (JObj [(''post'', JObj r3)])"
    by (simp add: post_detail_get_def d f del: find_by_id.simps)
  have g2: "fst (post_detail_get 2 (snd (post_detail_delete 2 st))) = error_response 404 ''Post not found''"
    by (simp add: post_detail_get_def d f del: find_by_id.simps)
  have c: "\<exists>new. posts (snd (post_list_post ts data (snd (post_detail_delete 2 st)))) = [r1, r3, new]
           \<and> map_of new ''id'' = Some (JInt 3)"
    if "status (fst (post_list_post ts data (snd (post_detail_delete 2 st)))) = 201"
    using post_list_post_cases [OF surjective_pairing, of ts data "snd (post_detail_delete 2 st)"] that d
    by auto
  from d g1 g2 g3 c show ?thesis by blast
qed

lemma alumni_delete_then_create:
  assumes "alumni st = [r1, r2, r3]"
    and "ids_of (alumni st) = [Some (JInt 1), Some (JInt 2), Some (JInt 3)]"
  shows "alumni (snd (alumni_detail_delete 2 st)) = [r1, r3]
     \<and> fst (alumni_detail_get 1 (snd (alumni_detail_delete 2 st))) = Response 200 (JObj [(''alumni'', JObj r1)])
     \<and> fst (alumni_detail_get 3 (snd (alumni_detail_delete 2 st))) = Response 200 (JObj [(''alumni'', JObj r3)])
     \<and> fst (alumni_detail_get 2 (snd (alumni_detail_delete 2 st))) = error_response 404 ''Alumni not found''
     \<and> (status (fst (alumni_list_post ts data (snd (alumni_detail_delete 2 st)))) = 201 \<longrightarrow>
          (\<exists>new. alumni (snd (alumni_list_post ts data (snd (alumni_detail_delete 2 st)))) = [r1, r3, new]
             \<and> map_of new ''id'' = Some (JInt 3)))"
proof -
  note f = find_by_id_three [OF assms(2) [unfolded assms(1)]]
  have d: "alumni (snd (alumni_detail_delete 2 st)) = [r1, r3]"
    by (simp add: alumni_detail_delete_def assms(1) f del: find_by_id.simps)
  have g1: "fst (alumni_detail_get 1 (snd (alumni_detail_delete 2 st))) = Response 200 (JObj [(''alumni'', JObj r1)])"
    by (simp add: alumni_detail_get_def d f del: find_by_id.simps)
  have g3: "fst (alumni_detail_get 3 (snd (alumni_detail_delete 2 st))) = Response 200 (JObj [(''alumni'', JObj r3)])"
    by (simp add: alumni_detail_get_def d f del: find_by_id.simps)
  have g2: "fst (alumni_detail_get 2 (snd (alumni_detail_delete 2 st))) = error_response 404 ''Alumni not found''"
    by (simp add: alumni_detail_get_def d f del: find_by_id.simps)
  have c: "\<exists>new. alumni (snd (alumni_list_post ts data (snd (alumni_detail_delete 2 st)))) = [r1, r3, new]
           \<and> map_of new ''id'' = Some (JInt 3)"
    if "status (fst (alumni_list_post ts data (snd (alumni_detail_delete 2 st)))) = 201"
    using alumni_list_post_cases [OF surjective_pairing, of ts data "snd (alumni_detail_delete 2 st)"] that d
    by auto
  from d g1 g2 g3 c show ?thesis by blast
qed

subsection \<open>Required fields\<close>

lemma missing_field_find:
  "missing_field d fs = find (\<lambda>f. \<not> truthy (dict_get d f)) fs"
  by (induction fs) auto

lemma map_of_without_key:
  "map_of (without_key k d) f = (if f = k then None else map_of d f)"
  by (induction d) (auto simp: without_key_def)

lemma truthy_without_key:
  "\<not> truthy (dict_get d k) \<Longrightarrow> truthy (dict_get (without_key k d) f) = truthy (dict_get d f)"
  by (simp add: dict_get_def map_of_without_key)

lemma missing_field_without_key:
  "\<not> truthy (dict_get d k) \<Longrightarrow> missing_field (without_key k d) fs = missing_field d fs"
  by (induction fs) (auto simp: truthy_without_key)

lemma missing_field_exists:
  "k \<in> set fs \<Longrightarrow> \<not> truthy (dict_get d k) \<Longrightarrow> \<exists>f. missing_field d fs = Some f"
  by (induction fs) auto

lemma without_key_nonempty: "without_key k d \<noteq> [] \<Longrightarrow> d \<noteq> []"
  by (auto simp: without_key_def)

lemma register_missing:
  "d \<noteq> [] \<Longrightarrow> missing_field d [''email'', ''password'', ''name''] = Some f \<Longrightarrow>
     register env (JObj d) st = (error_response 400 (f @ '' is required''), st)"
  by (simp add: register_def)

lemma register_falsy_as_absent:
  assumes "k \<in> set [''email'', ''password'', ''name'']" and "\<not> truthy (dict_get d k)" and "without_key k d \<noteq> []"
  shows "register env (JObj (without_key k d)) st = register env (JObj d) st"
proof -
  from missing_field_exists [OF assms(1) assms(2)]
  obtain f where f: "missing_field d [''email'', ''password'', ''name''] = Some f"
    by blast
  then have "missing_field (without_key k d) [''email'', ''password'', ''name''] = Some f"
    by (simp only: missing_field_without_key [OF assms(2)])
  from register_missing [OF assms(3) this] register_missing [OF without_key_nonempty [OF assms(3)] f]
  show ?thesis by simp
qed

lemma alumni_list_post_missing:
  "d \<noteq> [] \<Longrightarrow> missing_field d [''name'', ''email'', ''batch'', ''department''] = Some f \<Longrightarrow>
     alumni_list_post ts (JObj d) st = (error_response 400 (f @ '' is required''), st)"
  by (simp add: alumni_list_post_def)

lemma alumni_list_post_falsy_as_absent:
  assumes "k \<in> set [''name'', ''email'', ''batch'', ''department'']" and "\<not> truthy (dict_get d k)" and "without_key k d \<noteq> []"
  shows "alumni_list_post ts (JObj (without_key k d)) st = alumni_list_post ts (JObj d) st"
proof -
  from missing_field_exists [OF assms(1) assms(2)]
  obtain f where f: "missing_field d [''name'', ''email'', ''batch'', ''department''] = Some f"
    by blast
  then have "missing_field (without_key k d) [''name'', ''email'', ''batch'', ''department''] = Some f"
    by (simp only: missing_field_without_key [OF assms(2)])
  from alumni_list_post_missing [OF assms(3) this] alumni_list_post_missing [OF without_key_nonempty [OF assms(3)] f]
  show ?thesis by simp
qed

lemma event_list_post_missing:
  "d \<noteq> [] \<Longrightarrow> missing_field d [''title'', ''description'', ''date'', ''location''] = Some f \<Longrightarrow>
     event_list_post ts (JObj d) st = (error_response 400 (f @ '' is required''), st)"
  by (simp add: event_list_post_def)

lemma event_list_post_falsy_as_absent:
  assumes "k \<in> set [''title'', ''description'', ''date'', ''location'']" and "\<not> truthy (dict_get d k)" and "without_key k d \<noteq> []"
  shows "event_list_post ts (JObj (without_key k d)) st = event_list_post ts (JObj d) st"
proof -
  from missing_field_exists [OF assms(1) assms(2)]
  obtain f where f: "missing_field d [''title'', ''description'', ''date'', ''location''] = Some f"
    by blast
  then have "missing_field (without_key k d) [''title'', ''description'', ''date'', ''location''] = Some f"
    by (simp only: missing_field_without_key [OF assms(2)])
  from event_list_post_missing [OF assms(3) this] event_list_post_missing [OF without_key_nonempty [OF assms(3)] f]
  show ?thesis by simp
qed

lemma job_list_post_missing:
  "d \<noteq> [] \<Longrightarrow> missing_field d [''title'', ''company'', ''description'', ''location''] = Some f \<Longrightarrow>
     job_list_post ts (JObj d) st = (error_response 400 (f @ '' is required''), st)"
  by (simp add: job_list_post_def)

lemma job_list_post_falsy_as_absent:
  assumes "k \<in> set [''title'', ''company'', ''description'', ''location'']" and "\<not> truthy (dict_get d k)" and "without_key k d \<noteq> []"
  shows "job_list_post ts (JObj (without_key k d)) st = job_list_post ts (JObj d) st"
proof -
  from missing_field_exists [OF assms(1) assms(2)]
  obtain f where f: "missing_field d [''title'', ''company'', ''description'', ''location''] = Some f"
    by blast
  then have "missing_field (without_key k d) [''title'', ''company'', ''description'', ''location''] = Some f"
    by (simp only: missing_field_without_key [OF assms(2)])
  from job_list_post_missing [OF assms(3) this] job_list_post_missing [OF without_key_nonempty [OF assms(3)] f]
  show ?thesis by simp
qed

lemma donation_list_post_missing:
  "d \<noteq> [] \<Longrightarrow> missing_field d [''donor_name'', ''amount'', ''purpose''] = Some f \<Longrightarrow>
     donation_list_post fo now (JObj d) st = (error_response 400 (f @ '' is required''), st)"
  by (simp add: donation_list_post_def)

lemma donation_list_post_falsy_as_absent:
  assumes "k \<in> set [''donor_name'', ''amount'', ''purpose'']" and "\<not> truthy (dict_get d k)" and "without_key k d \<noteq> []"
  shows "donation_list_post fo now (JObj (without_key k d)) st = donation_list_post fo now (JObj d) st"
proof -
  from missing_field_exists [OF assms(1) assms(2)]
  obtain f where f: "missing_field d [''donor_name'', ''amount'', ''purpose''] = Some f"
    by blast
  then have "missing_field (without_key k d) [''donor_name'', ''amount'', ''purpose''] = Some f"
    by (simp only: missing_field_without_key [OF assms(2)])
  from donation_list_post_missing [OF assms(3) this] donation_list_post_missing [OF without_key_nonempty [OF assms(3)] f]
  show ?thesis by simp
qed

lemma post_list_post_missing:
  "d \<noteq> [] \<Longrightarrow> missing_field d [''author_name'', ''content''] = Some f \<Longrightarrow>
     post_list_post ts (JObj d) st = (error_response 400 (f @ '' is required''), st)"
  by (simp add: post_list_post_def)

lemma post_list_post_falsy_as_absent:
  assumes "k \<in> set [''author_name'', ''content'']" and "\<not> truthy (dict_get d k)" and "without_key k d \<noteq> []"
  shows "post_list_post ts (JObj (without_key k d)) st = post_list_post ts (JObj d) st"
proof -
  from missing_field_exists [OF assms(1) assms(2)]
  obtain f where f: "missing_field d [''author_name'', ''content''] = Some f"
    by blast
  then have "missing_field (without_key k d) [''author_name'', ''content''] = Some f"
    by (simp only: missing_field_without_key [OF assms(2)])
  from post_list_post_missing [OF assms(3) this] post_list_post_missing [OF without_key_nonempty [OF assms(3)] f]
  show ?thesis by simp
qed

lemma message_list_post_missing:
  "d \<noteq> [] \<Longrightarrow> missing_field d [''sender_email'', ''recipient_email'', ''content''] = Some f \<Longrightarrow>
     message_list_post now (JObj d) st = (error_response 400 (f @ '' is required''), st)"
  by (simp add: message_list_post_def)

lemma message_list_post_falsy_as_absent:
  assumes "k \<in> set [''sender_email'', ''recipient_email'', ''content'']" and "\<not> truthy (dict_get d k)" and "without_key k d \<noteq> []"
  shows "message_list_post now (JObj (without_key k d)) st = message_list_post now (JObj d) st"
proof -
  from missing_field_exists [OF assms(1) assms(2)]
  obtain f where f: "missing_field d [''sender_email'', ''recipient_email'', ''content''] = Some f"
    by blast
  then have "missing_field (without_key k d) [''sender_email'', ''recipient_email'', ''content''] = Some f"
    by (simp only: missing_field_without_key [OF assms(2)])
  from message_list_post_missing [OF assms(3) this] message_list_post_missing [OF without_key_nonempty [OF assms(3)] f]
  show ?thesis by simp
qed

subsection \<open>Register and login\<close>

lemma find_user_by_email_mem:
  "find_user_by_email email us = Inr (Some u) \<Longrightarrow> u \<in> set us"
  by (induction us) (auto split: option.splits if_splits)

lemma strip_password_no_password: "map_of (strip_password user) ''password'' = None"
  by (induction user) (auto simp: strip_password_def)

lemma register_success:
  assumes "status (fst (register env data st)) = 201"
  shows "\<exists>user. users (snd (register env data st)) = users st @ [user]
           \<and> map_of user ''password'' \<noteq> None
           \<and> fst (register env data st) =
               Response 201 (JObj [(''message'', JStr ''User registered successfully''),
                                   (''user'', JObj (strip_password user)),
                                   (''token'', JStr (make_token env user))])"
  using assms unfolding register_def
  by (auto simp: Let_def error_response_def
      split: if_splits json.splits option.splits sum.splits)

lemma login_success:
  assumes "status (fst (login env data st)) = 200"
  shows "\<exists>user. user \<in> set (users st)
           \<and> map_of user ''password'' \<noteq> None
           \<and> snd (login env data st) = st
           \<and> fst (login env data st) =
               Response 200 (JObj [(''message'', JStr ''Login successful''),
                                   (''user'', JObj (strip_password user)),
                                   (''token'', JStr (make_token env user))])"
  using assms unfolding login_def
  by (auto simp: Let_def error_response_def dest: find_user_by_email_mem
      split: if_splits json.splits option.splits sum.splits)

subsection \<open>The record an update leaves\<close>

lemma map_of_filter_skip:
  "map_of (filter (\<lambda>kv. fst kv \<notin> set skip) d) k = (if k \<in> set skip then None else map_of d k)"
  by (induction d) auto

lemma distinct_filter_keys:
  "distinct (map fst d) \<Longrightarrow> distinct (map fst (filter P d))"
  by (induction d) auto

lemma updated_named:
  assumes "distinct (map fst d)" and "map_of d k = Some v" and "k \<notin> set skip"
    and "k \<noteq> ''updated_at''"
  shows "map_of (dict_set ''updated_at'' (JStr now) (update_fields skip d r)) k = Some v"
  using assms
  by (simp add: map_of_dict_set map_of_update_fields
      map_of_rev_distinct [OF distinct_filter_keys] map_of_filter_skip)

lemma updated_skipped:
  assumes "k \<in> set skip" and "k \<noteq> ''updated_at''"
  shows "map_of (dict_set ''updated_at'' (JStr now) (update_fields skip d r)) k = map_of r k"
  using assms by (simp add: map_of_dict_set map_of_update_fields_skip)

lemma updated_unnamed:
  assumes "distinct (map fst d)" and "map_of d k = None" and "k \<noteq> ''updated_at''"
  shows "map_of (dict_set ''updated_at'' (JStr now) (update_fields skip d r)) k = map_of r k"
  using assms
  by (simp add: map_of_dict_set map_of_update_fields
      map_of_rev_distinct [OF distinct_filter_keys] map_of_filter_skip)

lemma updated_stamp:
  "map_of (dict_set ''updated_at'' (JStr now) (update_fields skip d r)) ''updated_at'' = Some (JStr now)"
  by (simp add: map_of_dict_set)

lemma event_detail_put_success:
  assumes "distinct (map fst d)" and "status (fst (event_detail_put now i (JObj d) st)) = 200"
  shows "(\<exists>before r after r'. events st = before @ r # after
           \<and> find_by_id i (events st) = Inr (Some r)
           \<and> events (snd (event_detail_put now i (JObj d) st)) = before @ r' # after
           \<and> fst (event_detail_put now i (JObj d) st) =
               Response 200 (JObj [(''message'', JStr ''Event updated successfully''),
                                   (''event'', JObj r')])
           \<and> (\<forall>k v. map_of d k = Some v \<longrightarrow> k \<notin> {''id'', ''updated_at''} \<longrightarrow> map_of r' k = Some v)
           \<and> map_of r' ''id'' = map_of r ''id''
           \<and> (\<forall>k. map_of d k = None \<longrightarrow> k \<noteq> ''updated_at'' \<longrightarrow> map_of r' k = map_of r k)
           \<and> map_of r' ''updated_at'' = Some (JStr now))"
proof -
  let ?r' = "\<lambda>r. dict_set ''updated_at'' (JStr now) (update_fields [''id''] d r)"
  from event_detail_put_cases [OF surjective_pairing, of now i "JObj d" st] assms(2)
  obtain r where r: "find_by_id i (events st) = Inr (Some r)"
    and s: "snd (event_detail_put now i (JObj d) st) = st\<lparr>events := replace1 r (?r' r) (events st)\<rparr>"
    and f: "fst (event_detail_put now i (JObj d) st) = Response 200 (JObj [(''message'', JStr ''Event updated successfully''),
              (''event'', JObj (?r' r))])"
    by auto
  from find_by_id_split [OF r] obtain before after
    where b: "events st = before @ r # after" "r \<notin> set before"
    by blast
  have c: "events (snd (event_detail_put now i (JObj d) st)) = before @ ?r' r # after"
    by (simp add: s b replace1_split)
  have n: "\<forall>k v. map_of d k = Some v \<longrightarrow> k \<notin> {''id'', ''updated_at''} \<longrightarrow> map_of (?r' r) k = Some v"
    using updated_named [OF assms(1), where skip = "[''id'']" and now = now and r = r] by simp
  have u: "\<forall>k. map_of d k = None \<longrightarrow> k \<noteq> ''updated_at'' \<longrightarrow> map_of (?r' r) k = map_of r k"
    using updated_unnamed [OF assms(1), where skip = "[''id'']" and now = now and r = r] by simp
  have k: "map_of (?r' r) ''id'' = map_of r ''id''"
    "map_of (?r' r) ''created_at'' = map_of r ''created_at'' \<or> ''created_at'' \<notin> set [''id'']"
    by (simp_all add: updated_skipped)
  have t: "map_of (?r' r) ''updated_at'' = Some (JStr now)"
    by (rule updated_stamp)
  from b(1) r c f n u k t show ?thesis
    by (intro exI [of _ before] exI [of _ r] exI [of _ after] exI [of _ "?r' r"]) simp
qed

lemma job_detail_put_success:
  assumes "distinct (map fst d)" and "status (fst (job_detail_put now i (JObj d) st)) = 200"
  shows "(\<exists>before r after r'. jobs st = before @ r # after
           \<and> find_by_id i (jobs st) = Inr (Some r)
           \<and> jobs (snd (job_detail_put now i (JObj d) st)) = before @ r' # after
           \<and> fst (job_detail_put now i (JObj d) st) =
               Response 200 (JObj [(''message'', JStr ''Job updated successfully''),
                                   (''job'', JObj r')])
           \<and> (\<forall>k v. map_of d k = Some v \<longrightarrow> k \<notin> {''id'', ''updated_at''} \<longrightarrow> map_of r' k = Some v)
           \<and> map_of r' ''id'' = map_of r ''id''
           \<and> (\<forall>k. map_of d k = None \<longrightarrow> k \<noteq> ''updated_at'' \<longrightarrow> map_of r' k = map_of r k)
           \<and> map_of r' ''updated_at'' = Some (JStr now))"
proof -
  let ?r' = "\<lambda>r. dict_set ''updated_at'' (JStr now) (update_fields [''id''] d r)"
  from job_detail_put_cases [OF surjective_pairing, of now i "JObj d" st] assms(2)
  obtain r where r: "find_by_id i (jobs st) = Inr (Some r)"
    and s: "snd (job_detail_put now i (JObj d) st) = st\<lparr>jobs := replace1 r (?r' r) (jobs st)\<rparr>"
    and f: "fst (job_detail_put now i (JObj d) st) = Response 200 (JObj [(''message'', JStr ''Job updated successfully''),
              (''job'', JObj (?r' r))])"
    by auto
  from find_by_id_split [OF r] obtain before after
    where b: "jobs st = before @ r # after" "r \<notin> set before"
    by blast
  have c: "jobs (snd (job_detail_put now i (JObj d) st)) = before @ ?r' r # after"
    by (simp add: s b replace1_split)
  have n: "\<forall>k v. map_of d k = Some v \<longrightarrow> k \<notin> {''id'', ''updated_at''} \<longrightarrow> map_of (?r' r) k = Some v"
    using updated_named [OF assms(1), where skip = "[''id'']" and now = now and r = r] by simp
  have u: "\<forall>k. map_of d k = None \<longrightarrow> k \<noteq> ''updated_at'' \<longrightarrow> map_of (?r' r) k = map_of r k"
    using updated_unnamed [OF assms(1), where skip = "[''id'']" and now = now and r = r] by simp
  have k: "map_of (?r' r) ''id'' = map_of r ''id''"
    "map_of (?r' r) ''created_at'' = map_of r ''created_at'' \<or> ''created_at'' \<notin> set [''id'']"
    by (simp_all add: updated_skipped)
  have t: "map_of (?r' r) ''updated_at'' = Some (JStr now)"
    by (rule updated_stamp)
  from b(1) r c f n u k t show ?thesis
    by (intro exI [of _ before] exI [of _ r] exI [of _ after] exI [of _ "?r' r"]) simp
qed

lemma post_detail_put_success:
  assumes "distinct (map fst d)" and "status (fst (post_detail_put now i (JObj d) st)) = 200"
  shows "(\<exists>before r after r'. posts st = before @ r # after
           \<and> find_by_id i (posts st) = Inr (Some r)
           \<and> posts (snd (post_detail_put now i (JObj d) st)) = before @ r' # after
           \<and> fst (post_detail_put now i (JObj d) st) =
               Response 200 (JObj [(''message'', JStr ''Post updated successfully''),
                                   (''post'', JObj r')])
           \<and> (\<forall>k v. map_of d k = Some v \<longrightarrow> k \<notin> {''id'', ''created_at'', ''updated_at''} \<longrightarrow> map_of r' k = Some v)
           \<and> map_of r' ''id'' = map_of r ''id''
           \<and> map_of r' ''created_at'' = map_of r ''created_at''
           \<and> (\<forall>k. map_of d k = None \<longrightarrow> k \<noteq> ''updated_at'' \<longrightarrow> map_of r' k = map_of r k)
           \<and> map_of r' ''updated_at'' = Some (JStr now))"
proof -
  let ?r' = "\<lambda>r. dict_set ''updated_at'' (JStr now) (update_fields [''id'', ''created_at''] d r)"
  from post_detail_put_cases [OF surjective_pairing, of now i "JObj d" st] assms(2)
  obtain r where r: "find_by_id i (posts st) = Inr (Some r)"
    and s: "snd (post_detail_put now i (JObj d) st) = st\<lparr>posts := replace1 r (?r' r) (posts st)\<rparr>"
    and f: "fst (post_detail_put now i (JObj d) st) = Response 200 (JObj [(''message'', JStr ''Post updated successfully''),
              (''post'', JObj (?r' r))])"
    by auto
  from find_by_id_split [OF r] obtain before after
    where b: "posts st = before @ r # after" "r \<notin> set before"
    by blast
  have c: "posts (snd (post_detail_put now i (JObj d) st)) = before @ ?r' r # after"
    by (simp add: s b replace1_split)
  have n: "\<forall>k v. map_of d k = Some v \<longrightarrow> k \<notin> {''id'', ''created_at'', ''updated_at''} \<longrightarrow> map_of (?r' r) k = Some v"
    using updated_named [OF assms(1), where skip = "[''id'', ''created_at'']" and now = now and r = r] by simp
  have u: "\<forall>k. map_of d k = None \<longrightarrow> k \<noteq> ''updated_at'' \<longrightarrow> map_of (?r' r) k = map_of r k"
    using updated_unnamed [OF assms(1), where skip = "[''id'', ''created_at'']" and now = now and r = r] by simp
  have k: "map_of (?r' r) ''id'' = map_of r ''id''"
    "map_of (?r' r) ''created_at'' = map_of r ''created_at'' \<or> ''created_at'' \<notin> set [''id'', ''created_at'']"
    by (simp_all add: updated_skipped)
  have t: "map_of (?r' r) ''updated_at'' = Some (JStr now)"
    by (rule updated_stamp)
  from b(1) r c f n u k t show ?thesis
    by (intro exI [of _ before] exI [of _ r] exI [of _ after] exI [of _ "?r' r"]) simp
qed

lemma alumni_detail_put_success:
  assumes "distinct (map fst d)" and "status (fst (alumni_detail_put now i (JObj d) st)) = 200"
  shows "(\<exists>before r after r'. alumni st = before @ r # after
           \<and> find_by_id i (alumni st) = Inr (Some r)
           \<and> alumni (snd (alumni_detail_put now i (JObj d) st)) = before @ r' # after
           \<and> fst (alumni_detail_put now i (JObj d) st) =
               Response 200 (JObj [(''message'', JStr ''Alumni profile updated successfully''),
                                   (''alumni'', JObj r')])
           \<and> (\<forall>k v. map_of d k = Some v \<longrightarrow> k \<notin> {''id'', ''updated_at''} \<longrightarrow> map_of r' k = Some v)
           \<and> map_of r' ''id'' = map_of r ''id''
           \<and> (\<forall>k. map_of d k = None \<longrightarrow> k \<noteq> ''updated_at'' \<longrightarrow> map_of r' k = map_of r k)
           \<and> map_of r' ''updated_at'' = Some (JStr now))"
proof -
  let ?r' = "\<lambda>r. dict_set ''updated_at'' (JStr now) (update_fields [''id''] d r)"
  from alumni_detail_put_cases [OF surjective_pairing, of now i "JObj d" st] assms(2)
  obtain r where r: "find_by_id i (alumni st) = Inr (Some r)"
    and s: "snd (alumni_detail_put now i (JObj d) st) = st\<lparr>alumni := replace1 r (?r' r) (alumni st)\<rparr>"
    and f: "fst (alumni_detail_put now i (JObj d) st) = Response 200 (JObj [(''message'', JStr ''Alumni profile updated successfully''),
              (''alumni'', JObj (?r' r))])"
    by auto
  from find_by_id_split [OF r] obtain before after
    where b: "alumni st = before @ r # after" "r \<notin> set before"
    by blast
  have c: "alumni (snd (alumni_detail_put now i (JObj d) st)) = before @ ?r' r # after"
    by (simp add: s b replace1_split)
  have n: "\<forall>k v. map_of d k = Some v \<longrightarrow> k \<notin> {''id'', ''updated_at''} \<longrightarrow> map_of (?r' r) k = Some v"
    using updated_named [OF assms(1), where skip = "[''id'']" and now = now and r = r] by simp
  have u: "\<forall>k. map_of d k = None \<longrightarrow> k \<noteq> ''updated_at'' \<longrightarrow> map_of (?r' r) k = map_of r k"
    using updated_unnamed [OF assms(1), where skip = "[''id'']" and now = now and r = r] by simp
  have k: "map_of (?r' r) ''id'' = map_of r ''id''"
    "map_of (?r' r) ''created_at'' = map_of r ''created_at'' \<or> ''created_at'' \<notin> set [''id'']"
    by (simp_all add: updated_skipped)
  have t: "map_of (?r' r) ''updated_at'' = Some (JStr now)"
    by (rule updated_stamp)
  from b(1) r c f n u k t show ?thesis
    by (intro exI [of _ before] exI [of _ r] exI [of _ after] exI [of _ "?r' r"]) simp
qed

subsection \<open>Posts\<close>

lemma has_created_at_iff:
  "has_created_at p = (\<exists>s. map_of p ''created_at'' = Some (JStr s))"
  by (auto simp: has_created_at_def split: option.splits json.splits)

lemma created_at_keys_iff:
  "(\<exists>ks. created_at_keys ps = Inr ks) = list_all has_created_at ps"
  by (induction ps)
     (auto simp: has_created_at_iff split: option.splits json.splits sum.splits)

lemma sort_newest_first_sorted:
  "sorted_wrt (\<lambda>p q. created_at_str q \<le> created_at_str p)
     (rev (sort_key created_at_str (rev ps)))"
proof -
  have "sorted (map created_at_str (sort_key created_at_str (rev ps)))"
    by (rule sorted_sort_key)
  then have "sorted_wrt (\<lambda>p q. created_at_str p \<le> created_at_str q)
      (sort_key created_at_str (rev ps))"
    by (simp add: sorted_wrt_map)
  then show ?thesis
    by (simp add: sorted_wrt_rev)
qed

lemma descending_strict:
  assumes "sorted_wrt (\<lambda>p q. created_at_str q \<le> created_at_str p) qs"
    and "distinct (map created_at_str qs)"
  shows "sorted_wrt (\<lambda>p q. created_at_str q < created_at_str p) qs"
  using assms by (induction qs) (auto simp: less_le image_iff)

lemma filter_author_subset: "filter_author a ps = Inr qs \<Longrightarrow> set qs \<subseteq> set ps"
  by (induction ps arbitrary: qs) (auto split: sum.splits if_splits)

lemma post_list_get_success:
  assumes "fst (post_list_get post_type author st) = Response 200 body"
  shows "\<exists>ps. body = JObj [(''posts'', JList (map JObj ps)), (''total'', JInt (int (length ps)))]
           \<and> set ps \<subseteq> set (posts st)
           \<and> list_all has_created_at ps
           \<and> sorted_wrt (\<lambda>p q. created_at_str q \<le> created_at_str p) ps"
proof -
  let ?by_type = "if post_type \<noteq> []
      then filter (\<lambda>p. py_eq (dict_get_default p ''post_type'' (JStr [])) (JStr post_type)) (posts st)
      else posts st"
  let ?res = "if lower author \<noteq> [] then filter_author (lower author) ?by_type else Inr ?by_type"
  from assms obtain by_author where a: "?res = Inr by_author"
    and s: "sort_newest_first by_author \<noteq> Inl KeyError \<and> sort_newest_first by_author \<noteq> Inl TypeError"
    and b: "body = JObj [(''posts'', JList (map JObj (rev (sort_key created_at_str (rev by_author))))),
              (''total'', JInt (int (length by_author)))]"
    unfolding post_list_get_def sort_newest_first_def
    by (auto simp: Let_def split: sum.splits if_splits)
  from assms a have k: "\<exists>ks. created_at_keys by_author = Inr ks"
    unfolding post_list_get_def sort_newest_first_def
    by (auto simp: Let_def split: sum.splits if_splits)
  have sub: "set by_author \<subseteq> set (posts st)"
    using a filter_author_subset [of "lower author" ?by_type by_author]
    by (auto split: if_splits)
  let ?ps = "rev (sort_key created_at_str (rev by_author))"
  have "set ?ps = set by_author" by simp
  with sub have 1: "set ?ps \<subseteq> set (posts st)" by simp
  from k have "list_all has_created_at by_author" by (simp add: created_at_keys_iff)
  then have 2: "list_all has_created_at ?ps" by (simp add: list_all_iff)
  have 3: "body = JObj [(''posts'', JList (map JObj ?ps)), (''total'', JInt (int (length ?ps)))]"
    using b by simp
  from 1 2 3 sort_newest_first_sorted [of by_author] show ?thesis
    by (intro exI [of _ ?ps]) simp
qed

lemma post_list_get_ok:
  assumes "list_all has_created_at (posts st)"
  shows "status (fst (post_list_get post_type [] st)) = 200"
proof -
  let ?by_type = "if post_type \<noteq> []
      then filter (\<lambda>p. py_eq (dict_get_default p ''post_type'' (JStr [])) (JStr post_type)) (posts st)
      else posts st"
  from assms have "list_all has_created_at ?by_type"
    by (auto simp: list_all_iff)
  then obtain ks where "created_at_keys ?by_type = Inr ks"
    using created_at_keys_iff [of ?by_type] by blast
  then show ?thesis
    unfolding post_list_get_def sort_newest_first_def
    by (auto simp: Let_def lower_def)
qed

lemma post_list_post_success:
  assumes "status (fst (post_list_post ts data st)) = 201"
  shows "\<exists>new. posts (snd (post_list_post ts data st)) = posts st @ [new]
           \<and> map_of new ''created_at'' = Some (JStr (fst ts))
           \<and> fst (post_list_post ts data st) =
               Response 201 (JObj [(''message'', JStr ''Post created successfully''),
                                   (''post'', JObj new)])"
  using assms unfolding post_list_post_def
  by (auto simp: Let_def error_response_def split: if_splits json.splits option.splits)

lemma post_list_post_wf:
  "list_all has_created_at (posts st) \<Longrightarrow>
     list_all has_created_at (posts (snd (post_list_post ts data st)))"
  unfolding post_list_post_def
  by (auto simp: Let_def has_created_at_iff split: if_splits json.splits option.splits)

lemma post_detail_put_wf:
  assumes "list_all has_created_at (posts st)"
  shows "list_all has_created_at (posts (snd (post_detail_put now i data st)))"
proof -
  have r: "list_all has_created_at (replace1 r r' ps)"
    if "list_all has_created_at ps" "has_created_at r'" for r r' ps
    using that by (induction ps) auto
  have u: "has_created_at (dict_set ''updated_at'' (JStr now) (update_fields [''id'', ''created_at''] d r))"
    if "has_created_at r" for d r
    using that by (simp add: has_created_at_iff updated_skipped)
  from post_detail_put_cases [OF surjective_pairing, of now i data st]
  show ?thesis
  proof (elim disjE exE conjE)
    assume "snd (post_detail_put now i data st) = st"
    with assms show ?thesis by simp
  next
    fix e d
    assume f: "find_by_id i (posts st) = Inr (Some e)"
      and s: "snd (post_detail_put now i data st) =
        st\<lparr>posts := replace1 e (dict_set ''updated_at'' (JStr now)
          (update_fields [''id'', ''created_at''] d e)) (posts st)\<rparr>"
    from find_by_id_mem [OF f] assms have "has_created_at e"
      by (simp add: list_all_iff)
    from r [OF assms u [OF this]] s show ?thesis by simp
  qed
qed

lemma post_detail_delete_wf:
  assumes "list_all has_created_at (posts st)"
  shows "list_all has_created_at (posts (snd (post_detail_delete i st)))"
  using post_detail_delete_cases [OF surjective_pairing, of i st] assms
  by (elim disjE exE conjE) (auto simp: list_all_iff dest: notin_set_remove1)

lemma event_list_post_posts: "posts (snd (event_list_post ts data st)) = posts st"
  using event_list_post_cases [OF surjective_pairing, of ts data st]
  by (elim disjE exE conjE) simp_all

lemma job_list_post_posts: "posts (snd (job_list_post ts data st)) = posts st"
  using job_list_post_cases [OF surjective_pairing, of ts data st]
  by (elim disjE exE conjE) simp_all

lemma alumni_list_post_posts: "posts (snd (alumni_list_post ts data st)) = posts st"
  using alumni_list_post_cases [OF surjective_pairing, of ts data st]
  by (elim disjE exE conjE) simp_all

lemma donation_list_post_posts: "posts (snd (donation_list_post fo now data st)) = posts st"
  using donation_list_post_cases [OF surjective_pairing, of fo now data st]
  by (elim disjE exE conjE) simp_all

lemma message_list_post_posts: "posts (snd (message_list_post now data st)) = posts st"
  using message_list_post_cases [OF surjective_pairing, of now data st]
  by (elim disjE exE conjE) simp_all

lemma register_posts: "posts (snd (register env data st)) = posts st"
  using register_cases [OF surjective_pairing, of env data st]
  by (elim disjE exE conjE) simp_all

lemma event_detail_put_posts: "posts (snd (event_detail_put now i data st)) = posts st"
  using event_detail_put_cases [OF surjective_pairing, of now i data st]
  by (elim disjE exE conjE) simp_all

lemma event_detail_delete_posts: "posts (snd (event_detail_delete i st)) = posts st"
  using event_detail_delete_cases [OF surjective_pairing, of i st]
  by (elim disjE exE conjE) simp_all

lemma job_detail_put_posts: "posts (snd (job_detail_put now i data st)) = posts st"
  using job_detail_put_cases [OF surjective_pairing, of now i data st]
  by (elim disjE exE conjE) simp_all

lemma job_detail_delete_posts: "posts (snd (job_detail_delete i st)) = posts st"
  using job_detail_delete_cases [OF surjective_pairing, of i st]
  by (elim disjE exE conjE) simp_all

lemma alumni_detail_put_posts: "posts (snd (alumni_detail_put now i data st)) = posts st"
  using alumni_detail_put_cases [OF surjective_pairing, of now i data st]
  by (elim disjE exE conjE) simp_all

lemma alumni_detail_delete_posts: "posts (snd (alumni_detail_delete i st)) = posts st"
  using alumni_detail_delete_cases [OF surjective_pairing, of i st]
  by (elim disjE exE conjE) simp_all

lemma handle_posts_wf:
  "list_all has_created_at (posts st) \<Longrightarrow> list_all has_created_at (posts (snd (handle req st)))"
  by (cases req)
     (simp_all add: register_posts login_store alumni_list_post_posts alumni_detail_get_store
        alumni_detail_put_posts alumni_detail_delete_posts event_list_post_posts
        event_detail_get_store event_detail_put_posts event_detail_delete_posts
        job_list_post_posts job_detail_get_store job_detail_put_posts job_detail_delete_posts
        donation_list_post_posts donation_list_get_store donation_detail_store
        post_list_post_wf post_list_get_store post_detail_get_store post_detail_put_wf
        post_detail_delete_wf message_list_post_posts)

lemma run_posts_wf:
  "list_all has_created_at (posts st) \<Longrightarrow> list_all has_created_at (posts (run reqs st))"
  by (induction reqs arbitrary: st) (auto simp: handle_posts_wf)

lemma later_first:
  assumes "sorted_wrt (\<lambda>p q. f q \<le> f p) ps" and "a \<in> set ps" and "b \<in> set ps"
    and "f a < (f b :: 'k :: linorder)"
  shows "\<exists>xs ys zs. ps = xs @ b # ys @ a # zs"
proof -
  from split_list [OF assms(3)] obtain xs rest where s: "ps = xs @ b # rest"
    by blast
  have "a \<notin> set xs"
  proof
    assume "a \<in> set xs"
    with assms(1) s have "f b \<le> f a"
      by (auto simp: sorted_wrt_append)
    with assms(4) show False by simp
  qed
  moreover from assms(4) have "a \<noteq> b" by auto
  ultimately have "a \<in> set rest"
    using assms(2) s by auto
  from split_list [OF this] obtain ys zs where "rest = ys @ a # zs"
    by blast
  with s show ?thesis by blast
qed

lemma post_list_get_all:
  assumes "list_all has_created_at (posts st)"
  shows "fst (post_list_get [] [] st) =
     Response 200 (JObj [(''posts'', JList (map JObj (rev (sort_key created_at_str (rev (posts st)))))),
                         (''total'', JInt (int (length (posts st))))])"
proof -
  from assms obtain ks where "created_at_keys (posts st) = Inr ks"
    using created_at_keys_iff [of "posts st"] by blast
  then show ?thesis
    unfolding post_list_get_def sort_newest_first_def
    by (simp add: Let_def lower_def)
qed

lemma two_posts_later_first:
  assumes "list_all has_created_at (posts st)" and "fst tsa < fst tsb"
    and "status (fst (post_list_post tsa da st)) = 201"
    and "status (fst (post_list_post tsb db (snd (post_list_post tsa da st)))) = 201"
  shows "\<exists>pa pb before between after.
           posts (snd (post_list_post tsb db (snd (post_list_post tsa da st)))) = posts st @ [pa, pb]
           \<and> map_of pa ''created_at'' = Some (JStr (fst tsa))
           \<and> map_of pb ''created_at'' = Some (JStr (fst tsb))
           \<and> fst (post_list_get [] [] (snd (post_list_post tsb db (snd (post_list_post tsa da st))))) =
               Response 200 (JObj [(''posts'', JList (map JObj (before @ pb # between @ pa # after))),
                                   (''total'', JInt (int (length (posts st)) + 2))])"
proof -
  let ?st2 = "snd (post_list_post tsb db (snd (post_list_post tsa da st)))"
  from post_list_post_success [OF assms(3)]
  obtain pa where a: "posts (snd (post_list_post tsa da st)) = posts st @ [pa]"
    "map_of pa ''created_at'' = Some (JStr (fst tsa))"
    by auto
  from post_list_post_success [OF assms(4)] a(1)
  obtain pb where b: "posts ?st2 = posts st @ [pa, pb]"
    "map_of pb ''created_at'' = Some (JStr (fst tsb))"
    by auto
  from a(2) b(2) have k: "created_at_str pa = fst tsa" "created_at_str pb = fst tsb"
    by (simp_all add: created_at_str_def)
  from a(2) b(2) have "has_created_at pa" "has_created_at pb"
    by (simp_all add: has_created_at_iff)
  with assms(1) b(1) have w: "list_all has_created_at (posts ?st2)"
    by simp
  let ?l = "rev (sort_key created_at_str (rev (posts ?st2)))"
  have "sorted_wrt (\<lambda>p q. created_at_str q \<le> created_at_str p) ?l"
    by (rule sort_newest_first_sorted)
  moreover have sl: "set ?l = set (posts ?st2)"
    by simp
  have m: "pa \<in> set (posts ?st2)" "pb \<in> set (posts ?st2)"
    using b(1) by simp_all
  have "pa \<in> set ?l" "pb \<in> set ?l"
    by (simp_all only: sl m)
  moreover note this
  moreover have "created_at_str pa < created_at_str pb"
    using k assms(2) by simp
  ultimately obtain before between after where l: "?l = before @ pb # between @ pa # after"
    using later_first [of created_at_str ?l pa pb] by blast
  have n: "int (length (posts ?st2)) = int (length (posts st)) + 2"
    using b(1) by simp
  have "fst (post_list_get [] [] ?st2) =
      Response 200 (JObj [(''posts'', JList (map JObj (before @ pb # between @ pa # after))),
                          (''total'', JInt (int (length (posts st)) + 2))])"
    by (simp only: post_list_get_all [OF w] l n)
  with a(2) b show ?thesis by blast
qed

subsection \<open>Floats\<close>

lemma float_of_str_nan: "float_of_str fo ''nan'' = Inr NaN"
  by (simp add: float_of_str_def strip_def py_space_def lower_def lower_char_def)

section \<open>Deleting a record and creating the next one\<close>

text \<open>
  C1 (amended). In each collection with a delete route (alumni, events, jobs, posts): from
  a collection holding exactly three records with ids 1, 2, 3, deleting id 2 leaves the
  records 1 and 3, get(1) and get(3) answer 200 with them, get(2) answers 404, and the
  next successful create assigns \<open>len + 1 = 3\<close>, the id the surviving third record
  already has.
\<close>

theorem deleted_id_is_reused:
  assumes "events st_e = [e1, e2, e3]"
    and "ids_of (events st_e) = [Some (JInt 1), Some (JInt 2), Some (JInt 3)]"
    and "jobs st_j = [j1, j2, j3]"
    and "ids_of (jobs st_j) = [Some (JInt 1), Some (JInt 2), Some (JInt 3)]"
    and "posts st_p = [p1, p2, p3]"
    and "ids_of (posts st_p) = [Some (JInt 1), Some (JInt 2), Some (JInt 3)]"
    and "alumni st_a = [a1, a2, a3]"
    and "ids_of (alumni st_a) = [Some (JInt 1), Some (JInt 2), Some (JInt 3)]"
  shows "(events (snd (event_detail_delete 2 st_e)) = [e1, e3]
     \<and> fst (event_detail_get 1 (snd (event_detail_delete 2 st_e))) = Response 200 (JObj [(''event'', JObj e1)])
     \<and> fst (event_detail_get 3 (snd (event_detail_delete 2 st_e))) = Response 200 (JObj [(''event'', JObj e3)])
     \<and> fst (event_detail_get 2 (snd (event_detail_delete 2 st_e))) = error_response 404 ''Event not found''
     \<and> (status (fst (event_list_post ts_e data_e (snd (event_detail_delete 2 st_e)))) = 201 \<longrightarrow>
          (\<exists>new. events (snd (event_list_post ts_e data_e (snd (event_detail_delete 2 st_e)))) = [e1, e3, new]
             \<and> map_of new ''id'' = Some (JInt 3))))
   \<and> (jobs (snd (job_detail_delete 2 st_j)) = [j1, j3]
     \<and> fst (job_detail_get 1 (snd (job_detail_delete 2 st_j))) = Response 200 (JObj [(''job'', JObj j1)])
     \<and> fst (job_detail_get 3 (snd (job_detail_delete 2 st_j))) = Response 200 (JObj [(''job'', JObj j3)])
     \<and> fst (job_detail_get 2 (snd (job_detail_delete 2 st_j))) = error_response 404 ''Job not found''
     \<and> (status (fst (job_list_post ts_j data_j (snd (job_detail_delete 2 st_j)))) = 201 \<longrightarrow>
          (\<exists>new. jobs (snd (job_list_post ts_j data_j (snd (job_detail_delete 2 st_j)))) = [j1, j3, new]
             \<and> map_of new ''id'' = Some (JInt 3))))
   \<and> (posts (snd (post_detail_delete 2 st_p)) = [p1, p3]
     \<and> fst (post_detail_get 1 (snd (post_detail_delete 2 st_p))) = Response 200 (JObj [(''post'', JObj p1)])
     \<and> fst (post_detail_get 3 (snd (post_detail_delete 2 st_p))) = Response 200 (JObj [(''post'', JObj p3)])
     \<and> fst (post_detail_get 2 (snd (post_detail_delete 2 st_p))) = error_response 404 ''Post not found''
     \<and> (status (fst (post_list_post ts_p data_p (snd (post_detail_delete 2 st_p)))) = 201 \<longrightarrow>
          (\<exists>new. posts (snd (post_list_post ts_p data_p (snd (post_detail_delete 2 st_p)))) = [p1, p3, new]
             \<and> map_of new ''id'' = Some (JInt 3))))
   \<and> (alumni (snd (alumni_detail_delete 2 st_a)) = [a1, a3]
     \<and> fst (alumni_detail_get 1 (snd (alumni_detail_delete 2 st_a))) = Response 200 (JObj [(''alumni'', JObj a1)])
     \<and> fst (alumni_detail_get 3 (snd (alumni_detail_delete 2 st_a))) = Response 200 (JObj [(''alumni'', JObj a3)])
     \<and> fst (alumni_detail_get 2 (snd (alumni_detail_delete 2 st_a))) = error_response 404 ''Alumni not found''
     \<and> (status (fst (alumni_list_post ts_a data_a (snd (alumni_detail_delete 2 st_a)))) = 201 \<longrightarrow>
          (\<exists>new. alumni (snd (alumni_list_post ts_a data_a (snd (alumni_detail_delete 2 st_a)))) = [a1, a3, new]
             \<and> map_of new ''id'' = Some (JInt 3))))"
  using event_delete_then_create [OF assms(1) assms(2), of ts_e data_e]
    job_delete_then_create [OF assms(3) assms(4), of ts_j data_j]
    post_delete_then_create [OF assms(5) assms(6), of ts_p data_p]
    alumni_delete_then_create [OF assms(7) assms(8), of ts_a data_a]
  by blast

theorem deleted_id_is_reused_witness:
  "ids_of (alumni three_alumni) = [Some (JInt 1), Some (JInt 2), Some (JInt 3)]
   \<and> ids_of (events three_events) = [Some (JInt 1), Some (JInt 2), Some (JInt 3)]
   \<and> ids_of (jobs three_jobs) = [Some (JInt 1), Some (JInt 2), Some (JInt 3)]
   \<and> ids_of (posts three_posts) = [Some (JInt 1), Some (JInt 2), Some (JInt 3)]
   \<and> status (fst (alumni_list_post (t4, t4) (example_alumni ''d@x.org'')
         (snd (alumni_detail_delete 2 three_alumni)))) = 201
   \<and> ids_of (alumni (snd (alumni_list_post (t4, t4) (example_alumni ''d@x.org'')
         (snd (alumni_detail_delete 2 three_alumni))))) = [Some (JInt 1), Some (JInt 3), Some (JInt 3)]"
proof -
  have three: "xs = [xs ! 0, xs ! 1, xs ! 2]" if "length xs = 3" for xs :: "pydict list"
  proof -
    from that obtain x y z where "xs = [x, y, z]"
      by (auto simp: numeral_3_eq_3 length_Suc_conv)
    then show ?thesis by simp
  qed
  have ia: "ids_of (alumni three_alumni) = [Some (JInt 1), Some (JInt 2), Some (JInt 3)]"
    by code_simp
  have ie: "ids_of (events three_events) = [Some (JInt 1), Some (JInt 2), Some (JInt 3)]"
    by code_simp
  have ij: "ids_of (jobs three_jobs) = [Some (JInt 1), Some (JInt 2), Some (JInt 3)]"
    by code_simp
  have ip: "ids_of (posts three_posts) = [Some (JInt 1), Some (JInt 2), Some (JInt 3)]"
    by code_simp
  have ok: "status (fst (alumni_list_post (t4, t4) (example_alumni ''d@x.org'')
         (snd (alumni_detail_delete 2 three_alumni)))) = 201"
    by code_simp
  have la: "length (alumni three_alumni) = 3" and le: "length (events three_events) = 3"
    and lj: "length (jobs three_jobs) = 3" and lp: "length (posts three_posts) = 3"
    using ia ie ij ip by (auto simp: ids_of_def dest: arg_cong [where f = length])
  note a = three [OF la] and e = three [OF le] and j = three [OF lj] and p = three [OF lp]
  from deleted_id_is_reused [OF e ie j ij p ip a ia, of _ _ _ _ _ _ "(t4, t4)" "example_alumni ''d@x.org''"] ok
  obtain new where n: "alumni (snd (alumni_list_post (t4, t4) (example_alumni ''d@x.org'')
         (snd (alumni_detail_delete 2 three_alumni)))) = [alumni three_alumni ! 0, alumni three_alumni ! 2, new]"
      "map_of new ''id'' = Some (JInt 3)"
    by blast
  have "ids_of [alumni three_alumni ! 0, alumni three_alumni ! 1, alumni three_alumni ! 2]
      = [Some (JInt 1), Some (JInt 2), Some (JInt 3)]"
    by (rule subst [OF a, where P = "\<lambda>xs. ids_of xs = [Some (JInt 1), Some (JInt 2), Some (JInt 3)]"])
       (rule ia)
  then have "map_of (alumni three_alumni ! 0) ''id'' = Some (JInt 1)"
    and "map_of (alumni three_alumni ! 2) ''id'' = Some (JInt 3)"
    by (simp_all add: ids_of_def)
  with n have fin: "ids_of (alumni (snd (alumni_list_post (t4, t4) (example_alumni ''d@x.org'')
         (snd (alumni_detail_delete 2 three_alumni))))) = [Some (JInt 1), Some (JInt 3), Some (JInt 3)]"
    by (simp add: ids_of_def)
  show ?thesis
    by (intro conjI ia ie ij ip ok fin)
qed

text \<open>
  The claim as stated (the next create assigns id 4) fails on events: three creates,
  delete 2, the three lookups, one more create.
\<close>

theorem next_id_after_delete_counterexample:
  "map status (responses delete_then_create init_store) = [201, 201, 201, 200, 200, 200, 404, 201]
   \<and> ids_of (events (run (take 3 delete_then_create) init_store))
       = [Some (JInt 1), Some (JInt 2), Some (JInt 3)]
   \<and> ids_of (events (run delete_then_create init_store))
       = [Some (JInt 1), Some (JInt 3), Some (JInt 3)]
   \<and> ids_of (events (run delete_then_create init_store))
       \<noteq> [Some (JInt 1), Some (JInt 3), Some (JInt 4)]"
  by code_simp


section \<open>Ids within a collection\<close>

text \<open>
  C2 (amended). In every collection, the record at position \<open>i\<close> has id \<open>i\<close>, so ids
  are pairwise distinct, in the initial state and after every sequence of requests with
  no delete among them; and no request changes the id of a stored record: it leaves the
  ids in place, appends one record or removes one.
\<close>

theorem ids_distinct_without_delete:
  "list_all sequential_ids (collections init_store)
   \<and> (list_all (\<lambda>r. \<not> is_delete r) reqs \<longrightarrow>
        list_all sequential_ids (collections (run reqs init_store))
        \<and> list_all (\<lambda>recs. distinct (ids_of recs)) (collections (run reqs init_store)))
   \<and> list_all2 id_stable (collections st) (collections (snd (handle req st)))"
proof -
  have "list_all (\<lambda>recs. distinct (ids_of recs)) cs" if "list_all sequential_ids cs" for cs
    using that by (induction cs) (auto simp: sequential_ids_distinct)
  then show ?thesis
    using init_sequential run_sequential [OF _ init_sequential, of reqs] handle_stable [of st req]
    by blast
qed

theorem ids_distinct_without_delete_witness:
  "list_all (\<lambda>r. \<not> is_delete r) create_update_requests
   \<and> list_all (\<lambda>recs. distinct (ids_of recs)) (collections (run create_update_requests init_store))
   \<and> ids_of (events (run create_update_requests init_store))
        = [Some (JInt 1), Some (JInt 2), Some (JInt 3)]"
proof -
  have h: "list_all (\<lambda>r. \<not> is_delete r) create_update_requests"
    by code_simp
  have i: "ids_of (events (run create_update_requests init_store))
        = [Some (JInt 1), Some (JInt 2), Some (JInt 3)]"
    by code_simp
  from ids_distinct_without_delete [of create_update_requests] h
  have "list_all (\<lambda>recs. distinct (ids_of recs)) (collections (run create_update_requests init_store))"
    by blast
  then show ?thesis
    by (intro conjI h i)
qed

text \<open>
  The claim as stated (distinct ids after every sequence of create, update and delete)
  fails on jobs: three creates, delete 2, one more create leave two records with id 3.
\<close>

theorem duplicate_id_counterexample:
  "map status (responses job_delete_then_create init_store) = [201, 201, 201, 200, 201]
   \<and> distinct (ids_of (jobs (run (take 4 job_delete_then_create) init_store)))
   \<and> \<not> distinct (ids_of (jobs (run job_delete_then_create init_store)))"
  by code_simp


section \<open>Registering an email twice\<close>

text \<open>
  C3 (the code at the failing input). \<open>register\<close> stores the email in lower case
  but looks the address up as it was sent, so an address with an upper-case letter never
  matches a stored one: registering \<^verbatim>\<open>A@b.com\<close> twice is answered 201 both times and
  leaves two users with the email \<^verbatim>\<open>a@b.com\<close>; so is \<^verbatim>\<open>a@b.com\<close> followed by
  \<^verbatim>\<open>A@B.COM\<close>. Only an address sent in lower case both times is answered 409.
\<close>

theorem register_twice_same_email:
  "map status (responses (register_twice ''A@b.com'' ''A@b.com'') init_store) = [201, 201]
   \<and> field_of ''email'' (users (run (register_twice ''A@b.com'' ''A@b.com'') init_store))
        = [JStr ''a@b.com'', JStr ''a@b.com'']
   \<and> map status (responses (register_twice ''a@b.com'' ''A@B.COM'') init_store) = [201, 201]
   \<and> map status (responses (register_twice ''a@b.com'' ''a@b.com'') init_store) = [201, 409]"
  by code_simp


section \<open>Anonymous donations\<close>

text \<open>
  C4 (the code at the failing input). An anonymous donation is created and looked up by
  id (donor_name "A"); the donation list answers with donor_name "Anonymous" and
  donor_email "", and it writes both into the stored record: the same lookup after the
  list returns "Anonymous" and "".
\<close>

theorem donation_list_rewrites_stored_donor:
  "map status (responses anonymous_donation_requests init_store) = [201, 200, 200, 200]
   \<and> field_of ''donor_name'' (donations (run (take 2 anonymous_donation_requests) init_store))
        = [JStr ''A'']
   \<and> field_of ''donor_name'' (donations (run (take 3 anonymous_donation_requests) init_store))
        = [JStr ''Anonymous'']
   \<and> responses anonymous_donation_requests init_store ! 1
        = Response 200 (JObj [(''donation'', JObj
            [(''id'', JInt 1), (''donor_name'', JStr ''A''), (''donor_email'', JStr ''a@b.com''),
             (''amount'', JFloat (Finite 100)), (''currency'', JStr ''INR''),
             (''purpose'', JStr ''library''), (''message'', JStr []), (''anonymous'', JBool True),
             (''payment_method'', JStr []), (''transaction_id'', JStr []),
             (''status'', JStr ''completed''), (''created_at'', JStr t1)])])
   \<and> responses anonymous_donation_requests init_store ! 2
        = Response 200 (JObj [(''donations'', JList [JObj
            [(''id'', JInt 1), (''donor_name'', JStr ''Anonymous''), (''donor_email'', JStr []),
             (''amount'', JFloat (Finite 100)), (''currency'', JStr ''INR''),
             (''purpose'', JStr ''library''), (''message'', JStr []), (''anonymous'', JBool True),
             (''payment_method'', JStr []), (''transaction_id'', JStr []),
             (''status'', JStr ''completed''), (''created_at'', JStr t1)]]),
            (''total'', JInt 1), (''total_amount'', JFloat (Finite 100))])
   \<and> responses anonymous_donation_requests init_store ! 3
        = Response 200 (JObj [(''donation'', JObj
            [(''id'', JInt 1), (''donor_name'', JStr ''Anonymous''), (''donor_email'', JStr []),
             (''amount'', JFloat (Finite 100)), (''currency'', JStr ''INR''),
             (''purpose'', JStr ''library''), (''message'', JStr []), (''anonymous'', JBool True),
             (''payment_method'', JStr []), (''transaction_id'', JStr []),
             (''status'', JStr ''completed''), (''created_at'', JStr t1)])])"
  by code_simp


section \<open>The amount of a donation\<close>

text \<open>
  C5 (the code at the failing input). An amount that is a JSON array or object is
  truthy, so it passes the required-field check; \<^verbatim>\<open>float\<close> raises TypeError on it, which
  the inner \<^verbatim>\<open>except ValueError\<close> does not catch: the answer is the 500 of the outer
  handler, not a 400, whatever the float operations and the store are.
\<close>

theorem non_numeric_amount_is_internal_error:
  "donation_list_post fo now (example_donation (JList [JInt 1])) st
     = (InternalError ''Failed to record donation'', st)
   \<and> donation_list_post fo now (example_donation (JObj [(''value'', JInt 100)])) st
     = (InternalError ''Failed to record donation'', st)
   \<and> status (fst (donation_list_post fo now (example_donation (JList [JInt 1])) st)) = 500"
  by (simp add: donation_list_post_def example_donation_def dict_get_def)


section \<open>Update\<close>

text \<open>
  C6 (amended). For every update answered 200 (the body \<open>d\<close> a JSON object, so its
  keys are distinct): the first record with the id is replaced in place, and in the new
  record each field named in the body, other than id and updated_at (and, for a post,
  created_at), holds the supplied value; id is unchanged; for a post created_at is
  unchanged; every field the body does not name, other than updated_at, is unchanged;
  and updated_at is the timestamp of the operation.
\<close>

theorem update_overwrites_named_fields:
  assumes "distinct (map fst d)"
  shows "(status (fst (event_detail_put now i (JObj d) st)) = 200 \<longrightarrow>
      (\<exists>before r after r'. events st = before @ r # after
           \<and> find_by_id i (events st) = Inr (Some r)
           \<and> events (snd (event_detail_put now i (JObj d) st)) = before @ r' # after
           \<and> fst (event_detail_put now i (JObj d) st) =
               Response 200 (JObj [(''message'', JStr ''Event updated successfully''),
                                   (''event'', JObj r')])
           \<and> (\<forall>k v. map_of d k = Some v \<longrightarrow> k \<notin> {''id'', ''updated_at''} \<longrightarrow> map_of r' k = Some v)
           \<and> map_of r' ''id'' = map_of r ''id''
           \<and> (\<forall>k. map_of d k = None \<longrightarrow> k \<noteq> ''updated_at'' \<longrightarrow> map_of r' k = map_of r k)
           \<and> map_of r' ''updated_at'' = Some (JStr now)))
   \<and> (status (fst (job_detail_put now i (JObj d) st)) = 200 \<longrightarrow>
      (\<exists>before r after r'. jobs st = before @ r # after
           \<and> find_by_id i (jobs st) = Inr (Some r)
           \<and> jobs (snd (job_detail_put now i (JObj d) st)) = before @ r' # after
           \<and> fst (job_detail_put now i (JObj d) st) =
               Response 200 (JObj [(''message'', JStr ''Job updated successfully''),
                                   (''job'', JObj r')])
           \<and> (\<forall>k v. map_of d k = Some v \<longrightarrow> k \<notin> {''id'', ''updated_at''} \<longrightarrow> map_of r' k = Some v)
           \<and> map_of r' ''id'' = map_of r ''id''
           \<and> (\<forall>k. map_of d k = None \<longrightarrow> k \<noteq> ''updated_at'' \<longrightarrow> map_of r' k = map_of r k)
           \<and> map_of r' ''updated_at'' = Some (JStr now)))
   \<and> (status (fst (post_detail_put now i (JObj d) st)) = 200 \<longrightarrow>
      (\<exists>before r after r'. posts st = before @ r # after
           \<and> find_by_id i (posts st) = Inr (Some r)
           \<and> posts (snd (post_detail_put now i (JObj d) st)) = before @ r' # after
           \<and> fst (post_detail_put now i (JObj d) st) =
               Response 200 (JObj [(''message'', JStr ''Post updated successfully''),
                                   (''post'', JObj r')])
           \<and> (\<forall>k v. map_of d k = Some v \<longrightarrow> k \<notin> {''id'', ''created_at'', ''updated_at''} \<longrightarrow> map_of r' k = Some v)
           \<and> map_of r' ''id'' = map_of r ''id''
           \<and> map_of r' ''created_at'' = map_of r ''created_at''
           \<and> (\<forall>k. map_of d k = None \<longrightarrow> k \<noteq> ''updated_at'' \<longrightarrow> map_of r' k = map_of r k)
           \<and> map_of r' ''updated_at'' = Some (JStr now)))
   \<and> (status (fst (alumni_detail_put now i (JObj d) st)) = 200 \<longrightarrow>
      (\<exists>before r after r'. alumni st = before @ r # after
           \<and> find_by_id i (alumni st) = Inr (Some r)
           \<and> alumni (snd (alumni_detail_put now i (JObj d) st)) = before @ r' # after
           \<and> fst (alumni_detail_put now i (JObj d) st) =
               Response 200 (JObj [(''message'', JStr ''Alumni profile updated successfully''),
                                   (''alumni'', JObj r')])
           \<and> (\<forall>k v. map_of d k = Some v \<longrightarrow> k \<notin> {''id'', ''updated_at''} \<longrightarrow> map_of r' k = Some v)
           \<and> map_of r' ''id'' = map_of r ''id''
           \<and> (\<forall>k. map_of d k = None \<longrightarrow> k \<noteq> ''updated_at'' \<longrightarrow> map_of r' k = map_of r k)
           \<and> map_of r' ''updated_at'' = Some (JStr now)))"
  using event_detail_put_success [OF assms, of now i st] job_detail_put_success [OF assms, of now i st]
    post_detail_put_success [OF assms, of now i st] alumni_detail_put_success [OF assms, of now i st]
  by blast

theorem update_overwrites_named_fields_witness:
  "distinct (map fst [(''title'', JStr ''Gala''), (''id'', JInt 99)])
   \<and> status (fst (event_detail_put t4 1 (JObj [(''title'', JStr ''Gala''), (''id'', JInt 99)])
          three_events)) = 200
   \<and> (\<exists>before r after r'. events three_events = before @ r # after
          \<and> events (snd (event_detail_put t4 1 (JObj [(''title'', JStr ''Gala''), (''id'', JInt 99)])
                three_events)) = before @ r' # after
          \<and> map_of r' ''title'' = Some (JStr ''Gala'')
          \<and> map_of r' ''id'' = map_of r ''id''
          \<and> map_of r' ''location'' = map_of r ''location''
          \<and> map_of r' ''updated_at'' = Some (JStr t4))"
proof -
  let ?d = "[(''title'', JStr ''Gala''), (''id'', JInt 99)]"
  have d: "distinct (map fst ?d)" by simp
  have s: "status (fst (event_detail_put t4 1 (JObj ?d) three_events)) = 200"
    by code_simp
  note T = update_overwrites_named_fields [OF d, of t4 1 three_events, THEN conjunct1,
      rule_format, OF s]
  then obtain before r after r' where
    a: "events three_events = before @ r # after"
    and b: "events (snd (event_detail_put t4 1 (JObj ?d) three_events)) = before @ r' # after"
    and n: "\<forall>k v. map_of ?d k = Some v \<longrightarrow> k \<notin> {''id'', ''updated_at''} \<longrightarrow> map_of r' k = Some v"
    and i: "map_of r' ''id'' = map_of r ''id''"
    and u: "\<forall>k. map_of ?d k = None \<longrightarrow> k \<noteq> ''updated_at'' \<longrightarrow> map_of r' k = map_of r k"
    and t: "map_of r' ''updated_at'' = Some (JStr t4)"
    by (elim exE conjE)
  from n [rule_format, of "''title''" "JStr ''Gala''"]
  have g: "map_of r' ''title'' = Some (JStr ''Gala'')" by simp
  from u [rule_format, of "''location''"]
  have l: "map_of r' ''location'' = map_of r ''location''" by simp
  have "\<exists>before r after r'. events three_events = before @ r # after
          \<and> events (snd (event_detail_put t4 1 (JObj ?d) three_events)) = before @ r' # after
          \<and> map_of r' ''title'' = Some (JStr ''Gala'')
          \<and> map_of r' ''id'' = map_of r ''id''
          \<and> map_of r' ''location'' = map_of r ''location''
          \<and> map_of r' ''updated_at'' = Some (JStr t4)"
    by (intro exI [of _ before] exI [of _ r] exI [of _ after] exI [of _ r'] conjI a b g i l t)
  with d s show ?thesis by (intro conjI)
qed

text \<open>
  The claim as stated (each field named in the body holds the supplied value) fails for
  a body that names id and updated_at: the update is answered 200, the id stays 1 and
  updated_at is the timestamp of the operation.
\<close>

theorem update_keeps_id_counterexample:
  "status (fst (event_detail_put t4 1
       (JObj [(''id'', JInt 99), (''updated_at'', JStr ''never'')]) three_events)) = 200
   \<and> ids_of (events three_events) = [Some (JInt 1), Some (JInt 2), Some (JInt 3)]
   \<and> ids_of (events (snd (event_detail_put t4 1
       (JObj [(''id'', JInt 99), (''updated_at'', JStr ''never'')]) three_events)))
        = [Some (JInt 1), Some (JInt 2), Some (JInt 3)]
   \<and> field_of ''updated_at'' (events (snd (event_detail_put t4 1
       (JObj [(''id'', JInt 99), (''updated_at'', JStr ''never'')]) three_events)))
        = [JStr t4, JStr t2, JStr t3]
   \<and> ids_of (events (snd (event_detail_put t4 1
       (JObj [(''id'', JInt 99), (''updated_at'', JStr ''never'')]) three_events)))
        \<noteq> [Some (JInt 99), Some (JInt 2), Some (JInt 3)]"
  by code_simp


section \<open>The posts list\<close>

text \<open>
  C7 (amended). created_at is a string in every stored post of every state the requests
  reach, and in such a state the posts list without an author filter is answered 200.
  Whenever the posts list is answered 200, for any type and author filter, the posts it
  returns are stored posts in descending order of created_at (compared as strings); the
  order is strictly descending when the timestamps listed are pairwise distinct. Two
  posts created in sequence, the second with the later timestamp, are listed with the
  second before the first.
\<close>

theorem posts_list_newest_first:
  "list_all has_created_at (posts (run reqs init_store))
   \<and> status (fst (post_list_get post_type [] (run reqs init_store))) = 200
   \<and> (fst (post_list_get post_type author st) = Response 200 body \<longrightarrow>
        (\<exists>ps. body = JObj [(''posts'', JList (map JObj ps)), (''total'', JInt (int (length ps)))]
           \<and> set ps \<subseteq> set (posts st)
           \<and> list_all has_created_at ps
           \<and> sorted_wrt (\<lambda>p q. created_at_str q \<le> created_at_str p) ps
           \<and> (distinct (map created_at_str ps) \<longrightarrow>
                sorted_wrt (\<lambda>p q. created_at_str q < created_at_str p) ps)))
   \<and> (list_all has_created_at (posts st) \<and> fst tsa < fst tsb
        \<and> status (fst (post_list_post tsa da st)) = 201
        \<and> status (fst (post_list_post tsb db (snd (post_list_post tsa da st)))) = 201 \<longrightarrow>
        (\<exists>pa pb before between after.
           posts (snd (post_list_post tsb db (snd (post_list_post tsa da st)))) = posts st @ [pa, pb]
           \<and> map_of pa ''created_at'' = Some (JStr (fst tsa))
           \<and> map_of pb ''created_at'' = Some (JStr (fst tsb))
           \<and> fst (post_list_get [] [] (snd (post_list_post tsb db (snd (post_list_post tsa da st))))) =
               Response 200 (JObj [(''posts'', JList (map JObj (before @ pb # between @ pa # after))),
                                   (''total'', JInt (int (length (posts st)) + 2))])))"
proof -
  have w: "list_all has_created_at (posts (run reqs init_store))"
    by (rule run_posts_wf) (simp add: init_store_def)
  have l: "\<exists>ps. body = JObj [(''posts'', JList (map JObj ps)), (''total'', JInt (int (length ps)))]
           \<and> set ps \<subseteq> set (posts st)
           \<and> list_all has_created_at ps
           \<and> sorted_wrt (\<lambda>p q. created_at_str q \<le> created_at_str p) ps
           \<and> (distinct (map created_at_str ps) \<longrightarrow>
                sorted_wrt (\<lambda>p q. created_at_str q < created_at_str p) ps)"
    if "fst (post_list_get post_type author st) = Response 200 body"
    using post_list_get_success [OF that] descending_strict by blast
  from w post_list_get_ok [OF w] l two_posts_later_first [of st tsa tsb da db]
  show ?thesis by blast
qed

theorem posts_list_newest_first_witness:
  "list_all has_created_at (posts init_store) \<and> fst (t1, t1) < fst (t2, t2)
   \<and> status (fst (post_list_post (t1, t1) example_post init_store)) = 201
   \<and> status (fst (post_list_post (t2, t2) example_post
         (snd (post_list_post (t1, t1) example_post init_store)))) = 201
   \<and> (\<exists>pa pb before between after.
           posts (snd (post_list_post (t2, t2) example_post
                  (snd (post_list_post (t1, t1) example_post init_store)))) = posts init_store @ [pa, pb]
           \<and> map_of pa ''created_at'' = Some (JStr t1)
           \<and> map_of pb ''created_at'' = Some (JStr t2)
           \<and> fst (post_list_get [] [] (snd (post_list_post (t2, t2) example_post
                  (snd (post_list_post (t1, t1) example_post init_store))))) =
               Response 200 (JObj [(''posts'', JList (map JObj (before @ pb # between @ pa # after))),
                                   (''total'', JInt (int (length (posts init_store)) + 2))]))
   \<and> field_of ''created_at'' (listed (fst (post_list_get [] [] (snd (post_list_post (t2, t2) example_post
          (snd (post_list_post (t1, t1) example_post init_store)))))))
        = [JStr t2, JStr t1]"
proof -
  have e: "list_all has_created_at (posts init_store)" by (simp add: init_store_def)
  have o: "fst (t1, t1) < fst (t2, t2)" by (simp add: t1_def t2_def)
  have a: "status (fst (post_list_post (t1, t1) example_post init_store)) = 201"
    by code_simp
  have b: "status (fst (post_list_post (t2, t2) example_post
         (snd (post_list_post (t1, t1) example_post init_store)))) = 201"
    by code_simp
  have c: "field_of ''created_at'' (listed (fst (post_list_get [] [] (snd (post_list_post (t2, t2) example_post
          (snd (post_list_post (t1, t1) example_post init_store)))))))
        = [JStr t2, JStr t1]"
    by code_simp
  note T = posts_list_newest_first [where st = init_store and tsa = "(t1, t1)"
      and tsb = "(t2, t2)" and da = example_post and db = example_post, THEN conjunct2,
      THEN conjunct2, THEN conjunct2, rule_format, OF conjI [OF e conjI [OF o conjI [OF a b]]]]
  from T have "\<exists>pa pb before between after.
           posts (snd (post_list_post (t2, t2) example_post
                  (snd (post_list_post (t1, t1) example_post init_store)))) = posts init_store @ [pa, pb]
           \<and> map_of pa ''created_at'' = Some (JStr t1)
           \<and> map_of pb ''created_at'' = Some (JStr t2)
           \<and> fst (post_list_get [] [] (snd (post_list_post (t2, t2) example_post
                  (snd (post_list_post (t1, t1) example_post init_store))))) =
               Response 200 (JObj [(''posts'', JList (map JObj (before @ pb # between @ pa # after))),
                                   (''total'', JInt (int (length (posts init_store)) + 2))])"
    by (simp only: fst_conv)
  with e o a b c show ?thesis by (intro conjI)
qed

text \<open>
  The claim as stated fails in two ways. When the clock reads the same time for two
  posts, the list is answered 200 with both posts under equal created_at: the order is
  not strict. When it reads an earlier time for the second post, the timestamps are
  distinct and the two posts are listed in creation order, not in reverse.
\<close>

theorem posts_list_order_counterexample:
  "map status (responses posts_same_timestamp init_store) = [201, 201, 200]
   \<and> field_of ''id'' (listed (responses posts_same_timestamp init_store ! 2)) = [JInt 1, JInt 2]
   \<and> field_of ''created_at'' (listed (responses posts_same_timestamp init_store ! 2))
        = [JStr t1, JStr t1]
   \<and> map status (responses posts_clock_back init_store) = [201, 201, 200]
   \<and> field_of ''id'' (listed (responses posts_clock_back init_store ! 2)) = [JInt 1, JInt 2]
   \<and> field_of ''created_at'' (listed (responses posts_clock_back init_store ! 2))
        = [JStr t2, JStr t1]
   \<and> t1 < t2"
  by code_simp


section \<open>Register and login responses\<close>

text \<open>
  C8. Every register answered 201 and every login answered 200 has the body
  \<open>{message, user, token}\<close>, the user object is the stored user record without the
  key password, and the stored record has the key.
\<close>

theorem auth_response_has_no_password:
  "(status (fst (register env data st)) = 201 \<longrightarrow>
      (\<exists>user. users (snd (register env data st)) = users st @ [user]
         \<and> map_of user ''password'' \<noteq> None
         \<and> map_of (strip_password user) ''password'' = None
         \<and> fst (register env data st) =
             Response 201 (JObj [(''message'', JStr ''User registered successfully''),
                                 (''user'', JObj (strip_password user)),
                                 (''token'', JStr (make_token env user))])))
   \<and> (status (fst (login env data st)) = 200 \<longrightarrow>
      (\<exists>user. user \<in> set (users st)
         \<and> map_of user ''password'' \<noteq> None
         \<and> map_of (strip_password user) ''password'' = None
         \<and> snd (login env data st) = st
         \<and> fst (login env data st) =
             Response 200 (JObj [(''message'', JStr ''Login successful''),
                                 (''user'', JObj (strip_password user)),
                                 (''token'', JStr (make_token env user))])))"
  using register_success [of env data st] login_success [of env data st]
  by (auto simp: strip_password_no_password)

theorem auth_response_has_no_password_witness:
  "status (fst (register example_env (example_registration ''Asha@gec.ac.in'' ''secret1'') init_store)) = 201
   \<and> status (fst (login example_env (example_login ''ASHA@gec.ac.in'' ''secret1'')
        (snd (register example_env (example_registration ''Asha@gec.ac.in'' ''secret1'') init_store)))) = 200
   \<and> fst (login example_env (example_login ''ASHA@gec.ac.in'' ''secret1'')
        (snd (register example_env (example_registration ''Asha@gec.ac.in'' ''secret1'') init_store)))
      = Response 200 (JObj [(''message'', JStr ''Login successful''),
          (''user'', JObj [(''id'', JInt 1), (''email'', JStr ''asha@gec.ac.in''),
             (''name'', JStr ''A''), (''role'', JStr ''alumni''), (''created_at'', JStr t1)]),
          (''token'', JStr ''token'')])
   \<and> (\<exists>user. users (snd (register example_env (example_registration ''Asha@gec.ac.in'' ''secret1'') init_store))
          = users init_store @ [user] \<and> map_of user ''password'' \<noteq> None
          \<and> map_of (strip_password user) ''password'' = None)"
proof -
  have r: "status (fst (register example_env (example_registration ''Asha@gec.ac.in'' ''secret1'') init_store)) = 201"
    by code_simp
  have l: "status (fst (login example_env (example_login ''ASHA@gec.ac.in'' ''secret1'')
        (snd (register example_env (example_registration ''Asha@gec.ac.in'' ''secret1'') init_store)))) = 200"
    by code_simp
  have b: "fst (login example_env (example_login ''ASHA@gec.ac.in'' ''secret1'')
        (snd (register example_env (example_registration ''Asha@gec.ac.in'' ''secret1'') init_store)))
      = Response 200 (JObj [(''message'', JStr ''Login successful''),
          (''user'', JObj [(''id'', JInt 1), (''email'', JStr ''asha@gec.ac.in''),
             (''name'', JStr ''A''), (''role'', JStr ''alumni''), (''created_at'', JStr t1)]),
          (''token'', JStr ''token'')])"
    by code_simp
  from auth_response_has_no_password [of example_env
      "example_registration ''Asha@gec.ac.in'' ''secret1''" init_store] r
  have "\<exists>user. users (snd (register example_env (example_registration ''Asha@gec.ac.in'' ''secret1'') init_store))
          = users init_store @ [user] \<and> map_of user ''password'' \<noteq> None
          \<and> map_of (strip_password user) ''password'' = None"
    by blast
  with r l b show ?thesis by blast
qed


section \<open>Required fields\<close>

text \<open>
  C9. For register and every create endpoint, on a body \<open>d\<close> that is a non-empty
  object: the request fails with 400 and the message "<field> is required" for the first
  field, in the handler's required-field order, that is absent or bound to a falsy value
  (0, false, "", null, an empty list or object), and the store is unchanged. A required
  field bound to a falsy value is treated as an absent one: removing the key changes
  nothing in the answer (as long as the body stays non-empty, an empty body being
  answered with "Request body is required").
\<close>

theorem falsy_required_field_is_missing:
  assumes "d \<noteq> []"
  shows "(find (\<lambda>f. \<not> truthy (dict_get d f)) [''email'', ''password'', ''name''] = Some f \<longrightarrow>
       register env (JObj d) st = (error_response 400 (f @ '' is required''), st))
   \<and> (find (\<lambda>f. \<not> truthy (dict_get d f)) [''name'', ''email'', ''batch'', ''department''] = Some f \<longrightarrow>
       alumni_list_post ts (JObj d) st = (error_response 400 (f @ '' is required''), st))
   \<and> (find (\<lambda>f. \<not> truthy (dict_get d f)) [''title'', ''description'', ''date'', ''location''] = Some f \<longrightarrow>
       event_list_post ts (JObj d) st = (error_response 400 (f @ '' is required''), st))
   \<and> (find (\<lambda>f. \<not> truthy (dict_get d f)) [''title'', ''company'', ''description'', ''location''] = Some f \<longrightarrow>
       job_list_post ts (JObj d) st = (error_response 400 (f @ '' is required''), st))
   \<and> (find (\<lambda>f. \<not> truthy (dict_get d f)) [''donor_name'', ''amount'', ''purpose''] = Some f \<longrightarrow>
       donation_list_post fo now (JObj d) st = (error_response 400 (f @ '' is required''), st))
   \<and> (find (\<lambda>f. \<not> truthy (dict_get d f)) [''author_name'', ''content''] = Some f \<longrightarrow>
       post_list_post ts (JObj d) st = (error_response 400 (f @ '' is required''), st))
   \<and> (find (\<lambda>f. \<not> truthy (dict_get d f)) [''sender_email'', ''recipient_email'', ''content''] = Some f \<longrightarrow>
       message_list_post now (JObj d) st = (error_response 400 (f @ '' is required''), st))
   \<and> (\<not> truthy (dict_get d k) \<and> without_key k d \<noteq> [] \<longrightarrow>
        (k \<in> set [''email'', ''password'', ''name''] \<longrightarrow>
       register env (JObj (without_key k d)) st = register env (JObj d) st)
      \<and> (k \<in> set [''name'', ''email'', ''batch'', ''department''] \<longrightarrow>
       alumni_list_post ts (JObj (without_key k d)) st = alumni_list_post ts (JObj d) st)
      \<and> (k \<in> set [''title'', ''description'', ''date'', ''location''] \<longrightarrow>
       event_list_post ts (JObj (without_key k d)) st = event_list_post ts (JObj d) st)
      \<and> (k \<in> set [''title'', ''company'', ''description'', ''location''] \<longrightarrow>
       job_list_post ts (JObj (without_key k d)) st = job_list_post ts (JObj d) st)
      \<and> (k \<in> set [''donor_name'', ''amount'', ''purpose''] \<longrightarrow>
       donation_list_post fo now (JObj (without_key k d)) st = donation_list_post fo now (JObj d) st)
      \<and> (k \<in> set [''author_name'', ''content''] \<longrightarrow>
       post_list_post ts (JObj (without_key k d)) st = post_list_post ts (JObj d) st)
      \<and> (k \<in> set [''sender_email'', ''recipient_email'', ''content''] \<longrightarrow>
       message_list_post now (JObj (without_key k d)) st = message_list_post now (JObj d) st))"
  using assms
  by (auto simp: missing_field_find [symmetric]
      register_missing alumni_list_post_missing event_list_post_missing job_list_post_missing
      donation_list_post_missing post_list_post_missing message_list_post_missing
      intro!: register_falsy_as_absent alumni_list_post_falsy_as_absent
        event_list_post_falsy_as_absent job_list_post_falsy_as_absent
        donation_list_post_falsy_as_absent post_list_post_falsy_as_absent
        message_list_post_falsy_as_absent)

text \<open>A donation with amount 0 is answered "amount is required", not with the range error.\<close>

theorem falsy_required_field_is_missing_witness:
  "[(''donor_name'', JStr ''A''), (''amount'', JInt 0), (''purpose'', JStr ''library'')] \<noteq> []
   \<and> find (\<lambda>f. \<not> truthy (dict_get [(''donor_name'', JStr ''A''), (''amount'', JInt 0),
              (''purpose'', JStr ''library'')] f)) [''donor_name'', ''amount'', ''purpose'']
        = Some ''amount''
   \<and> donation_list_post example_float_ops t1 (example_donation (JInt 0)) init_store
        = (error_response 400 ''amount is required'', init_store)"
proof -
  let ?d = "[(''donor_name'', JStr ''A''), (''amount'', JInt 0), (''purpose'', JStr ''library'')]"
  have n: "?d \<noteq> []" by simp
  have f: "find (\<lambda>f. \<not> truthy (dict_get ?d f)) [''donor_name'', ''amount'', ''purpose'']
        = Some ''amount''"
    by (simp add: dict_get_def)
  from falsy_required_field_is_missing [OF n, where f = "''amount''" and fo = example_float_ops and now = t1
      and st = init_store] f
  have "donation_list_post example_float_ops t1 (JObj ?d) init_store
        = (error_response 400 (''amount'' @ '' is required''), init_store)"
    by blast
  then have "donation_list_post example_float_ops t1 (example_donation (JInt 0)) init_store
        = (error_response 400 ''amount is required'', init_store)"
    by (simp add: example_donation_def)
  with n f show ?thesis by blast
qed


section \<open>Stored amounts\<close>

text \<open>
  C10 (the code at the failing input). \<^verbatim>\<open>float("nan")\<close> is NaN and \<^verbatim>\<open>NaN <= 0\<close> is
  false, so a donation whose amount is the string "nan" passes the check: it is answered
  201 and stored with the amount NaN, and the donation list then reports the
  total_amount NaN, whatever the float operations are.
\<close>

theorem nan_amount_is_stored:
  "donations (snd (donation_list_post fo now (example_donation (JStr ''nan'')) init_store))
     = [[(''id'', JInt 1), (''donor_name'', JStr ''A''), (''donor_email'', JStr []),
         (''amount'', JFloat NaN), (''currency'', JStr ''INR''), (''purpose'', JStr ''library''),
         (''message'', JStr []), (''anonymous'', JBool False), (''payment_method'', JStr []),
         (''transaction_id'', JStr []), (''status'', JStr ''completed''),
         (''created_at'', JStr now)]]
   \<and> status (fst (donation_list_post fo now (example_donation (JStr ''nan'')) init_store)) = 201
   \<and> \<not> float_le_zero NaN
   \<and> fst (donation_list_get fo []
        (snd (donation_list_post fo now (example_donation (JStr ''nan'')) init_store)))
     = Response 200 (JObj [(''donations'', JList [JObj
         [(''id'', JInt 1), (''donor_name'', JStr ''A''), (''donor_email'', JStr []),
         (''amount'', JFloat NaN), (''currency'', JStr ''INR''), (''purpose'', JStr ''library''),
         (''message'', JStr []), (''anonymous'', JBool False), (''payment_method'', JStr []),
         (''transaction_id'', JStr []), (''status'', JStr ''completed''),
         (''created_at'', JStr now)]]),
        (''total'', JInt 1), (''total_amount'', JFloat NaN)])"
  by (simp add: donation_list_post_def donation_list_get_def example_donation_def dict_get_def
      dict_get_default_def float_of_str_nan init_store_def Let_def purpose_matches_def
      hide_donor_def py_add_def to_float_def float_of_int_def)

end
